theory Spec2Isabelle
  imports Main "HOL-Library.Sublist"
begin

text \<open>
  A model of the request orchestration of Mockup Magic Pro: the retry policy, the prompt
  composer, the suggestion engine and the generation call of services/geminiService.ts, and
  the batch, upscale and prompt-list handlers of App.tsx. The model comes first, section by
  section in the order of the sources; the properties follow.
\<close>

section \<open>Texts\<close>

text \<open>
  JavaScript strings are modelled as Isabelle strings, read as the UTF-8 bytes of the text.
  \<open>s.includes(sub)\<close> is true when \<open>sub\<close> occurs in \<open>s\<close> as a contiguous run; on well-formed
  UTF-8 this is the same on bytes as on code units.
\<close>

fun includes_text :: "string \<Rightarrow> string \<Rightarrow> bool" where
  "includes_text [] sub = (sub = [])"
| "includes_text (c # cs) sub = (prefix sub (c # cs) \<or> includes_text cs sub)"

section \<open>Errors and promises\<close>

text \<open>
  A thrown value is observed by the program through \<open>e.toString()\<close> and \<open>JSON.stringify(e)\<close>
  only, and neither of the two is taken to throw; \<open>stringify\<close> is \<open>None\<close> when
  \<open>JSON.stringify\<close> yields \<open>undefined\<close>. \<open>Error message\<close> is \<open>new Error(message)\<close>, whose own
  properties are not enumerable.
\<close>

datatype js_error = JsError (toString: string) (stringify: "string option")

definition Error :: "string \<Rightarrow> js_error" where
  "Error message = JsError (''Error: '' @ message) (Some ''{}'')"

text \<open>A settled promise.\<close>

datatype 'a outcome = Resolved 'a | Rejected js_error

section \<open>Retry policy (services/geminiService.ts, retry)\<close>

definition isTransient :: "js_error \<Rightarrow> bool" where
  "isTransient e =
     (let errorStr = toString e @ (case stringify e of None \<Rightarrow> [] | Some s \<Rightarrow> s)
      in includes_text errorStr ''503'' \<or> includes_text errorStr ''overloaded''
         \<or> includes_text errorStr ''UNAVAILABLE'' \<or> includes_text errorStr ''429'')"

text \<open>
  The wrapped operation \<open>fn\<close> is given by the outcome of each of its successive invocations:
  \<open>fn c\<close> is what the invocation number \<open>c\<close> (from 0) settles to. The loop threads the number
  of invocations made so far and the delays waited so far (\<open>wait(delay)\<close>, in milliseconds),
  and returns both with the settled result. \<open>retries\<close> and \<open>baseDelay\<close> are integers (the
  product with a power of two is exact in the numbers of JavaScript short of overflow).
\<close>

record 'a retry_run =
  settled :: "'a outcome"
  calls :: nat
  waits :: "int list"

function retry_loop ::
  "(nat \<Rightarrow> 'a outcome) \<Rightarrow> int \<Rightarrow> int \<Rightarrow> int \<Rightarrow> nat \<Rightarrow> int list \<Rightarrow> 'a retry_run" where
  "retry_loop fn retries baseDelay i c ws =
     (if i < retries then
        (case fn c of
           Resolved v \<Rightarrow> \<lparr>settled = Resolved v, calls = Suc c, waits = ws\<rparr>
         | Rejected e \<Rightarrow>
             (let isLast = (i = retries - 1) in
              if \<not> isTransient e \<or> isLast
              then \<lparr>settled = Rejected e, calls = Suc c, waits = ws\<rparr>
              else retry_loop fn retries baseDelay (i + 1) (Suc c)
                     (ws @ [baseDelay * 2 ^ nat i])))
      else \<lparr>settled = Rejected (Error ''Max retries reached''), calls = c, waits = ws\<rparr>)"
  by pat_completeness auto
termination
  by (relation "measure (\<lambda>(fn, retries, baseDelay, i, c, ws). nat (retries - i))") auto

declare retry_loop.simps [simp del]

definition retry :: "(nat \<Rightarrow> 'a outcome) \<Rightarrow> int \<Rightarrow> int \<Rightarrow> 'a retry_run" where
  "retry fn retries baseDelay = retry_loop fn retries baseDelay 0 0 []"

text \<open>Vocabulary of the retry claims: a transient rejection, and the delays of \<open>k\<close> retries.\<close>

definition transientFailure :: "'a outcome \<Rightarrow> bool" where
  "transientFailure r = (case r of Resolved v \<Rightarrow> False | Rejected e \<Rightarrow> isTransient e)"

definition backoff :: "int \<Rightarrow> nat \<Rightarrow> int list" where
  "backoff baseDelay k = map (\<lambda>j. baseDelay * 2 ^ j) [0..<k]"

section \<open>Data model (types.ts)\<close>

text \<open>
  The string-literal unions of types.ts are datatypes; the \<open>text\<close> functions give the string
  each value is at run time.
\<close>

datatype FrameStyle =
  Frame_Auto | Frame_None | Sleek_Black | Modern_White | Natural_Oak | Classic_Gold
  | Industrial_Metal

datatype LightingStyle =
  Lighting_Auto | Natural_Daylight | Soft_Morning | Golden_Hour | Studio_Lighting | Moody_Dim

datatype WallTexture =
  Texture_Auto | Clean_Drywall | Exposed_Brick | Raw_Concrete | Smooth_Plaster
  | Wooden_Paneling

datatype PrintSize = A1 | A2 | A3 | A4

datatype AnalysisVibe =
  Industrial_Raw | Modern_Minimalist | Cozy_Bohemian | Luxury_Highend | Public_Street
  | Surprise_Me

datatype AspectRatio = Ratio_1_1 | Ratio_3_4 | Ratio_4_3 | Ratio_16_9 | Ratio_9_16

datatype ImageSize = Size_1K | Size_2K | Size_4K

fun FrameStyle_text :: "FrameStyle \<Rightarrow> string" where
  "FrameStyle_text Frame_Auto = ''Auto''"
| "FrameStyle_text Frame_None = ''None''"
| "FrameStyle_text Sleek_Black = ''Sleek Black''"
| "FrameStyle_text Modern_White = ''Modern White''"
| "FrameStyle_text Natural_Oak = ''Natural Oak''"
| "FrameStyle_text Classic_Gold = ''Classic Gold''"
| "FrameStyle_text Industrial_Metal = ''Industrial Metal''"

fun LightingStyle_text :: "LightingStyle \<Rightarrow> string" where
  "LightingStyle_text Lighting_Auto = ''Auto''"
| "LightingStyle_text Natural_Daylight = ''Natural Daylight''"
| "LightingStyle_text Soft_Morning = ''Soft Morning''"
| "LightingStyle_text Golden_Hour = ''Golden Hour''"
| "LightingStyle_text Studio_Lighting = ''Studio Lighting''"
| "LightingStyle_text Moody_Dim = ''Moody Dim''"

fun WallTexture_text :: "WallTexture \<Rightarrow> string" where
  "WallTexture_text Texture_Auto = ''Auto''"
| "WallTexture_text Clean_Drywall = ''Clean Drywall''"
| "WallTexture_text Exposed_Brick = ''Exposed Brick''"
| "WallTexture_text Raw_Concrete = ''Raw Concrete''"
| "WallTexture_text Smooth_Plaster = ''Smooth Plaster''"
| "WallTexture_text Wooden_Paneling = ''Wooden Paneling''"

fun PrintSize_text :: "PrintSize \<Rightarrow> string" where
  "PrintSize_text A1 = ''A1''"
| "PrintSize_text A2 = ''A2''"
| "PrintSize_text A3 = ''A3''"
| "PrintSize_text A4 = ''A4''"

text \<open>
  GenerationSettings. In the three constraint fields \<open>None\<close> is JavaScript's \<open>undefined\<close>:
  handleGenerateBatch reads the constraint of a job from a selection list by index, which is
  \<open>undefined\<close> when the list is empty. \<open>count\<close> is a natural number.
\<close>

record GenerationSettings =
  prompt :: string
  negativePrompt :: string
  count :: nat
  aspectRatio :: AspectRatio
  imageSize :: ImageSize
  frameStyle :: "FrameStyle option"
  lighting :: "LightingStyle option"
  wallTexture :: "WallTexture option"
  printSize :: PrintSize

text \<open>
  MockupResult. \<open>imageUrl\<close> is \<open>None\<close> when the result was built from \<open>images[0]\<close> of an empty
  array; \<open>isHighRes\<close> is the optional flag (\<open>None\<close>: absent).
\<close>

record MockupResult =
  resultId :: string
  imageUrl :: "string option"
  resultPrompt :: string
  createdAt :: int
  isHighRes :: "bool option"

text \<open>An entry of the editable prompt list (App.tsx, editablePrompts).\<close>

record PromptEntry =
  entryId :: string
  entryText :: string
  isRegenerating :: "bool option"

text \<open>A value of a string union as a template literal renders it.\<close>

definition interpolate :: "('a \<Rightarrow> string) \<Rightarrow> 'a option \<Rightarrow> string" where
  "interpolate text v = (case v of None \<Rightarrow> ''undefined'' | Some x \<Rightarrow> text x)"

section \<open>Prompt composer (services/geminiService.ts, generateMockup, lines 184-232)\<close>

definition qualityPrefix :: string where
  "qualityPrefix =
     ''\<newline>    Award-winning editorial photography, shot on 35mm film, Kodak Portra '' @
     ''400 aesthetic.\<newline>    Features: Heavy natural film grain, slight chromatic '' @
     ''aberration, organic color grading, imperfect lens characteristics.\<newline>   '' @
     '' The final image must look like a raw, unpolished photograph, not a 3D '' @
     ''render.\<newline>    8k resolution, hyperrealistic, detailed texture.\<newline>  ''"

definition sizeContext :: "GenerationSettings \<Rightarrow> string" where
  "sizeContext settings =
     (if PrintSize_text (printSize settings) \<noteq> [] then PrintSize_text (printSize settings)
      else ''A3'')"

definition physicalInteraction :: string where
  "physicalInteraction =
     ''Ensure the environment's lighting interacts with the artwork. Cast realistic '' @
     ''shadows ONTO the print surface. If there is glass, show subtle reflections '' @
     ''OVER the artwork.''"

definition frameContext :: "GenerationSettings \<Rightarrow> string" where
  "frameContext settings =
     (if frameStyle settings = Some Frame_None then
        ''The attached image is taped or pasted directly onto the wall as a '' @
        sizeContext settings @
        '' poster. Show paper texture, slight curling at corners, and surface shadows '' @
        ''falling across the image.''
      else if frameStyle settings = Some Frame_Auto then
        ''The attached image is professionally framed in a style that perfectly '' @
        ''matches the environment's aesthetic ('' @
        sizeContext settings @
        '' size). Include realistic glass reflections and frame shadows.''
      else
        ''The attached image is physically framed in a '' @
        interpolate FrameStyle_text (frameStyle settings) @
        '' frame ('' @
        sizeContext settings @
        '' size) hanging on the wall. Include realistic glass reflections and frame '' @
        ''shadows.'')"

definition envContext :: "GenerationSettings \<Rightarrow> string" where
  "envContext settings =
     (let envContext0 = [];
          envContext1 =
            (if lighting settings \<noteq> Some Lighting_Auto
             then envContext0 @ ''Lighting Condition: ''
                    @ interpolate LightingStyle_text (lighting settings) @ ''. ''
             else envContext0);
          envContext2 =
            (if wallTexture settings \<noteq> Some Texture_Auto
             then envContext1 @ ''Wall Material: ''
                    @ interpolate WallTexture_text (wallTexture settings) @ ''. ''
             else envContext1)
      in if envContext2 = [] then
           ''Lighting and Wall Material should be inferred naturally from the scene '' @
           ''description.''
         else envContext2)"

text \<open>
  \<open>trim\<close> removes the white space and line terminators of ECMAScript from both ends; they
  are listed here by their UTF-8 encodings.
\<close>

definition whiteSpace :: "string list" where
  "whiteSpace =
     [[CHR 0x09], [CHR 0x0A], [CHR 0x0B], [CHR 0x0C], [CHR 0x0D], [CHR 0x20],
      [CHR 0xC2, CHR 0xA0], [CHR 0xE1, CHR 0x9A, CHR 0x80],
      [CHR 0xE2, CHR 0x80, CHR 0x80], [CHR 0xE2, CHR 0x80, CHR 0x81],
      [CHR 0xE2, CHR 0x80, CHR 0x82], [CHR 0xE2, CHR 0x80, CHR 0x83],
      [CHR 0xE2, CHR 0x80, CHR 0x84], [CHR 0xE2, CHR 0x80, CHR 0x85],
      [CHR 0xE2, CHR 0x80, CHR 0x86], [CHR 0xE2, CHR 0x80, CHR 0x87],
      [CHR 0xE2, CHR 0x80, CHR 0x88], [CHR 0xE2, CHR 0x80, CHR 0x89],
      [CHR 0xE2, CHR 0x80, CHR 0x8A], [CHR 0xE2, CHR 0x80, CHR 0xA8],
      [CHR 0xE2, CHR 0x80, CHR 0xA9], [CHR 0xE2, CHR 0x80, CHR 0xAF],
      [CHR 0xE2, CHR 0x81, CHR 0x9F], [CHR 0xE3, CHR 0x80, CHR 0x80],
      [CHR 0xEF, CHR 0xBB, CHR 0xBF]]"

function strip :: "string list \<Rightarrow> string \<Rightarrow> string" where
  "strip ws s =
     (case find (\<lambda>w. w \<noteq> [] \<and> prefix w s) ws of
        None \<Rightarrow> s
      | Some w \<Rightarrow> strip ws (drop (length w) s))"
  by pat_completeness auto
termination
proof (relation "measure (\<lambda>(ws, s). length s)")
  show "wf (measure (\<lambda>(ws, s). length s))" by simp
next
  fix ws :: "string list" and s w :: string
  assume "find (\<lambda>w. w \<noteq> [] \<and> prefix w s) ws = Some w"
  then have "w \<noteq> []" and "prefix w s" by (auto simp: find_Some_iff)
  then have "s \<noteq> []" by auto
  with \<open>w \<noteq> []\<close>
  show "((ws, drop (length w) s), (ws, s)) \<in> measure (\<lambda>(ws, s). length s)" by simp
qed

declare strip.simps [simp del]

definition trim :: "string \<Rightarrow> string" where
  "trim s = rev (strip (map rev whiteSpace) (rev (strip whiteSpace s)))"

text \<open>
  \<open>finalPrompt0\<close> is the value \<open>finalPrompt\<close> is declared with (the template);
  \<open>finalPrompt\<close> is its value after the negative constraints have been added.
\<close>

definition finalPrompt0 :: "GenerationSettings \<Rightarrow> string" where
  "finalPrompt0 settings =
     ''\<newline>    '' @
     qualityPrefix @
     '' \<newline>    SCENE: '' @
     prompt settings @
     ''. \<newline>    DETAILS: '' @
     envContext settings @
     '' \<newline>    PLACEMENT: '' @
     frameContext settings @
     '' \<newline>    PHYSICS: '' @
     physicalInteraction @
     ''\<newline>    COLOR: Apply a cohesive cinematic color grade that warps the colors '' @
     ''of the inserted artwork slightly to match the ambient light temperature '' @
     ''of the room. The artwork should not look like a digital overlay.\<newline>  ''"

definition finalPrompt :: "GenerationSettings \<Rightarrow> string" where
  "finalPrompt settings =
     (if negativePrompt settings \<noteq> [] \<and> length (trim (negativePrompt settings)) > 0
      then finalPrompt0 settings @ '' Do NOT include: '' @ negativePrompt settings @ ''.''
      else finalPrompt0 settings)"

section \<open>Credentials (services/geminiService.ts, getApiKey)\<close>

text \<open>
  What \<open>getApiKey\<close> reads: the two environment variables, the key of the AI Studio host
  (\<open>None\<close> when the host or its \<open>getApiKey\<close> is absent; \<open>Some None\<close> when it returns no key)
  and the item \<open>gemini_api_key\<close> of the local storage.
\<close>

record KeyEnvironment =
  env_API_KEY :: "string option"
  env_GEMINI_API_KEY :: "string option"
  aistudioKey :: "string option option"
  storedKey :: "string option"

definition normalizeApiKey :: "string option \<Rightarrow> string option" where
  "normalizeApiKey key =
     (case key of
        None \<Rightarrow> None
      | Some k \<Rightarrow>
          if k = [] then None
          else (let trimmed = trim k in
                if trimmed = [] \<or> trimmed = ''your_gemini_api_key_here'' then None
                else Some trimmed))"

definition getEnvApiKey :: "KeyEnvironment \<Rightarrow> string option" where
  "getEnvApiKey env =
     (let envKey =
        (case env_API_KEY env of
           Some k \<Rightarrow> if k \<noteq> [] then Some k else env_GEMINI_API_KEY env
         | None \<Rightarrow> env_GEMINI_API_KEY env)
      in normalizeApiKey envKey)"

definition getApiKey :: "KeyEnvironment \<Rightarrow> string option" where
  "getApiKey env =
     (case getEnvApiKey env of
        Some envKey \<Rightarrow> Some envKey
      | None \<Rightarrow>
          (case (case aistudioKey env of None \<Rightarrow> None | Some k \<Rightarrow> normalizeApiKey k) of
             Some studioKey \<Rightarrow> Some studioKey
           | None \<Rightarrow>
               (case normalizeApiKey (storedKey env) of
                  Some stored \<Rightarrow> Some stored
                | None \<Rightarrow> None)))"

definition apiKeyNotFound :: js_error where
  "apiKeyNotFound =
     Error ''API Key not found. Please set GEMINI_API_KEY environment variable.''"

section \<open>The remote capability\<close>

text \<open>
  A request of \<open>ai.models.generateContent\<close> and the part of its response the program reads.
  An optional property is an \<open>option\<close>.
\<close>

datatype RequestConfig = ImageConfig AspectRatio ImageSize | ResponseMimeType string

record ContentRequest =
  model :: string
  requestText :: string
  inlineImage :: string
  config :: RequestConfig

datatype InlineData = InlineData (data: "string option")

datatype Part = Part (inlineData: "InlineData option")

datatype Content = Content (parts: "Part list option")

datatype Candidate = Candidate (content: "Content option")

record GenerateContentResponse =
  responseText :: "string option"
  candidates :: "Candidate list option"

text \<open>
  The remote capability is given by what it answers: \<open>remote request c\<close> is the outcome of
  invocation number \<open>c\<close> of \<open>generateContent(request)\<close> inside one call of \<open>retry\<close>.
\<close>

type_synonym Remote = "ContentRequest \<Rightarrow> nat \<Rightarrow> GenerateContentResponse outcome"

definition MODEL_NAME :: string where
  "MODEL_NAME = ''gemini-3-pro-image-preview''"

definition ANALYSIS_MODEL :: string where
  "ANALYSIS_MODEL = ''gemini-2.5-flash''"

text \<open>\<open>base64Image.replace(/^data:image\/(png|jpeg|jpg|webp);base64,/, "")\<close>\<close>

definition cleanBase64 :: "string \<Rightarrow> string" where
  "cleanBase64 base64Image =
     (case find (\<lambda>header. prefix header base64Image)
             (map (\<lambda>format. ''data:image/'' @ format @ '';base64,'')
                [''png'', ''jpeg'', ''jpg'', ''webp''])
      of Some header \<Rightarrow> drop (length header) base64Image
       | None \<Rightarrow> base64Image)"

section \<open>Generation call (services/geminiService.ts, generateMockup)\<close>

text \<open>The loop over the parts of the first candidate.\<close>

fun firstInlineImage :: "Part list \<Rightarrow> string option" where
  "firstInlineImage [] = None"
| "firstInlineImage (part # rest) =
     (case inlineData part of
        Some (InlineData (Some d)) \<Rightarrow>
          if d \<noteq> [] then Some (''data:image/png;base64,'' @ d) else firstInlineImage rest
      | _ \<Rightarrow> firstInlineImage rest)"

text \<open>
  What one slot makes of a response. Reading \<open>content\<close> of a missing first candidate, or
  \<open>parts\<close> of a missing content, throws a TypeError inside the slot's \<open>try\<close>, which returns
  \<open>null\<close>.
\<close>

definition responseImage :: "GenerateContentResponse \<Rightarrow> string option" where
  "responseImage response =
     (case candidates response of
        None \<Rightarrow> None
      | Some [] \<Rightarrow> None
      | Some (candidate # others) \<Rightarrow>
          (case content candidate of
             None \<Rightarrow> None
           | Some c \<Rightarrow> (case parts c of None \<Rightarrow> None | Some ps \<Rightarrow> firstInlineImage ps)))"

definition generationRequest :: "string \<Rightarrow> GenerationSettings \<Rightarrow> ContentRequest" where
  "generationRequest base64Image settings =
     \<lparr>model = MODEL_NAME,
      requestText = finalPrompt settings,
      inlineImage = cleanBase64 base64Image,
      config = ImageConfig (aspectRatio settings) (imageSize settings)\<rparr>"

text \<open>
  One slot of \<open>generateMockup\<close>: the call through \<open>retry\<close> with its default parameters
  (3 attempts, 2000 ms), and \<open>null\<close> for every failure.
\<close>

definition generateSlot :: "Remote \<Rightarrow> ContentRequest \<Rightarrow> string option" where
  "generateSlot remote request =
     (case settled (retry (remote request) 3 2000) of
        Resolved response \<Rightarrow> responseImage response
      | Rejected error \<Rightarrow> None)"

text \<open>
  The slots run concurrently, each against the remote capability on its own:
  \<open>remote index\<close> is what the slot \<open>index\<close> is answered.
\<close>

definition generateMockup ::
  "(nat \<Rightarrow> Remote) \<Rightarrow> KeyEnvironment \<Rightarrow> string \<Rightarrow> GenerationSettings
     \<Rightarrow> js_error + string list" where
  "generateMockup remote env base64Image settings =
     (case getApiKey env of
        None \<Rightarrow> Inl apiKeyNotFound
      | Some apiKey \<Rightarrow>
          (let request = generationRequest base64Image settings;
               results = map (\<lambda>index. generateSlot (remote index) request)
                           [0..<count settings];
               generatedImages = map the (filter (\<lambda>img. img \<noteq> None) results)
           in if length generatedImages = 0
              then Inl (Error
                ''No images were generated. Please try a different prompt or image.'')
              else Inr generatedImages))"

section \<open>Suggestion engine (services/geminiService.ts)\<close>

fun AnalysisVibe_text :: "AnalysisVibe \<Rightarrow> string" where
  "AnalysisVibe_text Industrial_Raw = ''Industrial & Raw''"
| "AnalysisVibe_text Modern_Minimalist = ''Modern & Minimalist''"
| "AnalysisVibe_text Cozy_Bohemian = ''Cozy & Bohemian''"
| "AnalysisVibe_text Luxury_Highend = ''Luxury & High-end''"
| "AnalysisVibe_text Public_Street = ''Public & Street''"
| "AnalysisVibe_text Surprise_Me = ''Surprise Me''"

fun vibeContext :: "AnalysisVibe \<Rightarrow> string" where
  "vibeContext Industrial_Raw =
     ''Focus on: Industrial lofts, concrete walls, abandoned factories, exposed '' @
     ''brick, brutalist architecture, dramatic shadows.''"
| "vibeContext Modern_Minimalist =
     ''Focus on: Clean white gallery spaces, scandinavian interiors, negative '' @
     ''space, polished concrete floors, museum settings.''"
| "vibeContext Cozy_Bohemian =
     ''Focus on: Warm living rooms with plants, wooden shelves, coffee shops, '' @
     ''soft morning light, messy but aesthetic desks.''"
| "vibeContext Luxury_Highend =
     ''Focus on: Expensive hotel lobbies, marble walls, gold accents, dark moody '' @
     ''office spaces, architectural digest style.''"
| "vibeContext Public_Street =
     ''Focus on: Subway stations, wheatpasted street walls, bus stops, urban '' @
     ''textures, cafe windows.''"
| "vibeContext Surprise_Me =
     ''Focus on: A mix of unexpected locations - from industrial factories to '' @
     ''minimalist museums to gritty street corners.''"

definition getSystemPromptForVibe :: "AnalysisVibe \<Rightarrow> string" where
  \<open>getSystemPromptForVibe vibe =
     ''\<newline>    Analyze this artwork. Identify its style, color palette, and mood.\<newline> '' @
     ''   Based on this analysis, suggest distinct, high-quality, editorial-style '' @
     ''settings where this art would look amazing.\<newline>    \<newline>    THEME: '' @
     vibeContext vibe @
     ''\<newline>    \<newline>    Output strictly a JSON array of strings. \<newline>    Example: ["A raw '' @
     ''concrete industrial wall with dramatic shadow", "A minimalist art gallery '' @
     ''with polished floors"]\<newline>  ''\<close>

definition analysisPrompt :: "AnalysisVibe \<Rightarrow> string" where
  "analysisPrompt vibe =
     ''\<newline>    '' @
     getSystemPromptForVibe vibe @
     ''\<newline>    Generate exactly 4 suggestions.\<newline>  ''"

text \<open>
  A value of \<open>JSON.parse\<close>; a number is kept as its numeral. \<open>JSON.parse\<close> itself is the
  platform's and is a parameter of the model: \<open>None\<close> when it throws a SyntaxError.
\<close>

datatype json =
  JNull | JBoolean bool | JNumber string | JString string | JArray "json list"
  | JObject "(string \<times> json) list"

definition analysisFallback :: "json list" where
  "analysisFallback =
     [JString ''A modern gallery wall with spot lighting'',
      JString ''A cozy bohemian bedroom with plants'',
      JString ''A professional office space with sleek furniture'',
      JString ''An industrial loft with exposed brick'']"

definition analysisRequest :: "string \<Rightarrow> AnalysisVibe \<Rightarrow> ContentRequest" where
  "analysisRequest base64Image vibe =
     \<lparr>model = ANALYSIS_MODEL,
      requestText = analysisPrompt vibe,
      inlineImage = cleanBase64 base64Image,
      config = ResponseMimeType ''application/json''\<rparr>"

text \<open>\<open>response.text || "[]"\<close>\<close>

definition responseBody :: "GenerateContentResponse \<Rightarrow> string" where
  "responseBody response =
     (case responseText response of
        None \<Rightarrow> ''[]''
      | Some t \<Rightarrow> if t \<noteq> [] then t else ''[]'')"

definition analyzeImageForPrompts ::
  "(string \<Rightarrow> json option) \<Rightarrow> Remote \<Rightarrow> KeyEnvironment \<Rightarrow> string \<Rightarrow> AnalysisVibe
     \<Rightarrow> js_error + json list" where
  "analyzeImageForPrompts JSON_parse remote env base64Image vibe =
     (case getApiKey env of
        None \<Rightarrow> Inl apiKeyNotFound
      | Some apiKey \<Rightarrow>
          (case settled (retry (remote (analysisRequest base64Image vibe)) 3 2000) of
             Rejected error \<Rightarrow> Inr analysisFallback
           | Resolved response \<Rightarrow>
               (case JSON_parse (responseBody response) of
                  None \<Rightarrow> Inr analysisFallback
                | Some suggestions \<Rightarrow>
                    (case suggestions of
                       JArray elements \<Rightarrow> Inr (take 4 elements)
                     | _ \<Rightarrow> Inr []))))"

section \<open>Application constants (App.tsx)\<close>

definition INITIAL_PRESETS :: "string list" where
  "INITIAL_PRESETS =
     [''A sun-drenched industrial loft wall with harsh shadows and dust motes'',
      ''A moody, dimly lit art gallery with a single spotlight hitting the frame'',
      ''A gritty subway station wall with peeling posters and fluorescent hum'']"

definition DEFAULT_SETTINGS :: GenerationSettings where
  "DEFAULT_SETTINGS =
     \<lparr>prompt = ''A sun-drenched industrial loft wall with harsh shadows and dust motes'',
      negativePrompt =
        ''people, animals, text, watermark, blurry, low quality, distortion, ugly, '' @
        ''3d render, plastic look'',
      count = 1,
      aspectRatio = Ratio_3_4,
      imageSize = Size_1K,
      frameStyle = Some Frame_Auto,
      lighting = Some Lighting_Auto,
      wallTexture = Some Texture_Auto,
      printSize = A3\<rparr>"

section \<open>Application state (App.tsx)\<close>

text \<open>
  The state of the \<open>App\<close> component the handlers below read and write; \<open>alerts\<close> collects the
  messages shown with \<open>alert\<close>.
\<close>

record AppState =
  sourceImage :: "string option"
  selectedFrames :: "FrameStyle list"
  selectedLighting :: "LightingStyle list"
  selectedTextures :: "WallTexture list"
  editablePrompts :: "PromptEntry list"
  settings :: GenerationSettings
  results :: "MockupResult list"
  isGenerating :: bool
  upscalingId :: "string option"
  loadingMessage :: string
  alerts :: "string list"

text \<open>
  What the platform answers during one handler run. The jobs of a batch run concurrently, so
  each job is given its own answers, whatever the interleaving: \<open>generateContent world j i\<close>
  is the remote capability as slot \<open>i\<close> of job \<open>j\<close> meets it, and \<open>randomUUID world j k\<close> and
  \<open>dateNow world j k\<close> are the values of \<open>crypto.randomUUID()\<close> and \<open>Date.now()\<close> for image \<open>k\<close> of
  job \<open>j\<close>. A handler with a single job is job 0.
\<close>

record World =
  keys :: KeyEnvironment
  generateContent :: "nat \<Rightarrow> nat \<Rightarrow> Remote"
  randomUUID :: "nat \<Rightarrow> nat \<Rightarrow> string"
  dateNow :: "nat \<Rightarrow> nat \<Rightarrow> int"

section \<open>Batch orchestrator (App.tsx, handleGenerateBatch)\<close>

text \<open>
  \<open>selected[index % selected.length]\<close>: on an empty list the index is \<open>NaN\<close> and the value read
  is \<open>undefined\<close>.
\<close>

definition roundRobin :: "'a list \<Rightarrow> nat \<Rightarrow> 'a option" where
  "roundRobin selected index =
     (if length selected = 0 then None else Some (selected ! (index mod length selected)))"

text \<open>
  The timer a job awaits before it resolves its constraints and calls \<open>generateMockup\<close>, in
  milliseconds. All jobs are started together by \<open>map\<close>, so this is the time from the start of
  the batch to the job's call.
\<close>

definition staggerDelay :: "nat \<Rightarrow> int" where
  "staggerDelay index = (if index > 0 then 2500 else 0)"

definition batchSettings :: "AppState \<Rightarrow> nat \<Rightarrow> PromptEntry \<Rightarrow> GenerationSettings" where
  "batchSettings st index promptObj =
     (let frame = roundRobin (selectedFrames st) index;
          light = roundRobin (selectedLighting st) index;
          texture = roundRobin (selectedTextures st) index
      in (settings st)\<lparr>prompt := entryText promptObj, count := 1, frameStyle := frame,
            lighting := light, wallTexture := texture\<rparr>)"

text \<open>The settings of all jobs of a batch, and the delays they start after, by job index.\<close>

definition batchJobs :: "AppState \<Rightarrow> GenerationSettings list" where
  "batchJobs st =
     map (\<lambda>(index, promptObj). batchSettings st index promptObj)
       (enumerate 0 (editablePrompts st))"

definition batchSchedule :: "AppState \<Rightarrow> int list" where
  "batchSchedule st =
     map (\<lambda>(index, promptObj). staggerDelay index) (enumerate 0 (editablePrompts st))"

text \<open>One job: its results, none when \<open>generateMockup\<close> fails.\<close>

definition batchJob ::
  "World \<Rightarrow> AppState \<Rightarrow> string \<Rightarrow> nat \<Rightarrow> PromptEntry \<Rightarrow> MockupResult list" where
  "batchJob world st base64Image index promptObj =
     (case generateMockup (generateContent world index) (keys world) base64Image
             (batchSettings st index promptObj)
      of Inr images \<Rightarrow>
           map (\<lambda>(k, img).
                  \<lparr>resultId = randomUUID world index k,
                   imageUrl = Some img,
                   resultPrompt = entryText promptObj,
                   createdAt = dateNow world index k,
                   isHighRes = Some (imageSize (settings st) = Size_4K)\<rparr>)
             (enumerate 0 images)
       | Inl error \<Rightarrow> [])"

text \<open>The body of the handler's \<open>try\<close> up to the \<open>throw\<close>.\<close>

definition batchEmpty :: js_error where
  "batchEmpty = Error ''Batch generation yielded no results.''"

definition runBatch :: "World \<Rightarrow> AppState \<Rightarrow> string \<Rightarrow> js_error + MockupResult list" where
  "runBatch world st base64Image =
     (let batchResults =
            map (\<lambda>(index, promptObj). batchJob world st base64Image index promptObj)
              (enumerate 0 (editablePrompts st));
          flatResults = concat batchResults
      in if length flatResults = 0 then Inl batchEmpty else Inr flatResults)"

definition handleGenerateBatch :: "World \<Rightarrow> AppState \<Rightarrow> AppState" where
  "handleGenerateBatch world st =
     (case sourceImage st of
        None \<Rightarrow> st
      | Some base64Image \<Rightarrow>
          if base64Image = [] then st
          else if length (editablePrompts st) = 0 then st
          else
            (case runBatch world st base64Image of
               Inr flatResults \<Rightarrow>
                 st\<lparr>results := flatResults @ results st, isGenerating := False,
                    loadingMessage := []\<rparr>
             | Inl error \<Rightarrow>
                 st\<lparr>alerts := alerts st @ [''Batch generation encountered errors.''],
                    isGenerating := False, loadingMessage := []\<rparr>))"

section \<open>Upscale (App.tsx, handleUpscale)\<close>

definition upscaleSettings :: "GenerationSettings \<Rightarrow> MockupResult \<Rightarrow> GenerationSettings" where
  "upscaleSettings current result =
     current\<lparr>prompt := resultPrompt result, count := 1, imageSize := Size_4K,
       frameStyle := Some Frame_Auto, lighting := Some Lighting_Auto,
       wallTexture := Some Texture_Auto\<rparr>"

definition handleUpscale :: "World \<Rightarrow> AppState \<Rightarrow> MockupResult \<Rightarrow> AppState" where
  "handleUpscale world st result =
     (case sourceImage st of
        None \<Rightarrow> st\<lparr>alerts := alerts st @ [''Source missing.'']\<rparr>
      | Some base64Image \<Rightarrow>
          if base64Image = [] then st\<lparr>alerts := alerts st @ [''Source missing.'']\<rparr>
          else
            (case generateMockup (generateContent world 0) (keys world) base64Image
                    (upscaleSettings (settings st) result)
             of Inr images \<Rightarrow>
                  (let newResult =
                         \<lparr>resultId = randomUUID world 0 0,
                          imageUrl = (case images of [] \<Rightarrow> None | img # rest \<Rightarrow> Some img),
                          resultPrompt = resultPrompt result,
                          createdAt = dateNow world 0 0,
                          isHighRes = Some True\<rparr>
                   in st\<lparr>results := newResult # results st, upscalingId := None\<rparr>)
              | Inl error \<Rightarrow>
                  st\<lparr>alerts := alerts st @ [''Upscale failed.''], upscalingId := None\<rparr>))"

section \<open>The editable prompt list (App.tsx)\<close>

text \<open>
  The updaters passed to \<open>setEditablePrompts\<close>, as functions of the list \<open>prev\<close> they are
  applied to; \<open>uuid\<close> is the value \<open>crypto.randomUUID()\<close> returned. The guard of
  \<open>removePrompt\<close> does not read \<open>prev\<close>: it reads \<open>editablePrompts\<close> of the render that created
  the handler, here \<open>shown\<close>; when the guard fails no update is made.
\<close>

definition initialPrompts :: "PromptEntry list" where
  "initialPrompts =
     [\<lparr>entryId = ''1'', entryText = INITIAL_PRESETS ! 0, isRegenerating = None\<rparr>]"

definition updatePrompt :: "string \<Rightarrow> string \<Rightarrow> PromptEntry list \<Rightarrow> PromptEntry list" where
  "updatePrompt ident newText prev =
     map (\<lambda>p. if entryId p = ident then p\<lparr>entryText := newText\<rparr> else p) prev"

definition removePrompt ::
  "string \<Rightarrow> PromptEntry list \<Rightarrow> PromptEntry list \<Rightarrow> PromptEntry list" where
  "removePrompt ident shown prev =
     (if length shown > 1 then filter (\<lambda>p. entryId p \<noteq> ident) prev else prev)"

definition addEmptyPrompt :: "string \<Rightarrow> PromptEntry list \<Rightarrow> PromptEntry list" where
  "addEmptyPrompt uuid prev =
     prev @ [\<lparr>entryId = uuid, entryText = ''Describe a new environment...'',
              isRegenerating = None\<rparr>]"

text \<open>handleMagicAnalysis: the placeholder entry, and the entries made of the suggestions.\<close>

definition analysisPlaceholder :: "AnalysisVibe \<Rightarrow> PromptEntry list" where
  \<open>analysisPlaceholder vibeToUse =
     [\<lparr>entryId = ''loading'',
       entryText = [CHR 0xE2, CHR 0x9C, CHR 0xA8] @ '' Analyzing for "'' @
         AnalysisVibe_text vibeToUse @ ''" vibe...'',
       isRegenerating = None\<rparr>]\<close>

definition analysisPrompts ::
  "string list \<Rightarrow> string list \<Rightarrow> PromptEntry list \<Rightarrow> PromptEntry list" where
  "analysisPrompts uuids suggestions prev =
     (if length suggestions > 0
      then map (\<lambda>(uuid, s). \<lparr>entryId = uuid, entryText = s, isRegenerating = None\<rparr>)
             (zip uuids suggestions)
      else prev)"

text \<open>handleRegenerateSinglePrompt: the three updaters.\<close>

definition regenerateStarted :: "string \<Rightarrow> PromptEntry list \<Rightarrow> PromptEntry list" where
  "regenerateStarted ident prev =
     map (\<lambda>p. if entryId p = ident then p\<lparr>isRegenerating := Some True\<rparr> else p) prev"

definition regenerateFinished ::
  "string \<Rightarrow> string \<Rightarrow> PromptEntry list \<Rightarrow> PromptEntry list" where
  "regenerateFinished ident newText prev =
     map (\<lambda>p. if entryId p = ident
              then p\<lparr>entryText := newText, isRegenerating := Some False\<rparr> else p) prev"

definition regenerateFailed :: "string \<Rightarrow> PromptEntry list \<Rightarrow> PromptEntry list" where
  "regenerateFailed ident prev =
     map (\<lambda>p. if entryId p = ident then p\<lparr>isRegenerating := Some False\<rparr> else p) prev"

text \<open>
  The operations on the list as events. The state holds the list as the last render showed it
  (the \<open>editablePrompts\<close> the handlers of that render read), the list as it is now, and the
  number of calls of \<open>crypto.randomUUID\<close> made so far; \<open>crypto.randomUUID\<close> is given by the
  values of its successive calls, \<open>uuids n\<close> for call number \<open>n\<close>. \<open>Render\<close> is a render of
  the component, after which the handlers read the current list. \<open>OtherUUIDs k\<close> stands for
  \<open>k\<close> calls made by the other handlers, which leave the list alone.
\<close>

record PromptState =
  renderedPrompts :: "PromptEntry list"
  currentPrompts :: "PromptEntry list"
  uuidCalls :: nat

datatype PromptEvent =
  Render
  | UpdatePrompt string string
  | RemovePrompt string
  | AddEmptyPrompt
  | AnalysisStarted AnalysisVibe
  | AnalysisFinished "string list"
  | RegenerateStarted string
  | RegenerateFinished string string
  | RegenerateFailed string
  | OtherUUIDs nat

fun promptStep :: "(nat \<Rightarrow> string) \<Rightarrow> PromptState \<Rightarrow> PromptEvent \<Rightarrow> PromptState" where
  "promptStep uuids s Render = s\<lparr>renderedPrompts := currentPrompts s\<rparr>"
| "promptStep uuids s (UpdatePrompt ident newText) =
     s\<lparr>currentPrompts := updatePrompt ident newText (currentPrompts s)\<rparr>"
| "promptStep uuids s (RemovePrompt ident) =
     s\<lparr>currentPrompts := removePrompt ident (renderedPrompts s) (currentPrompts s)\<rparr>"
| "promptStep uuids s AddEmptyPrompt =
     s\<lparr>currentPrompts := addEmptyPrompt (uuids (uuidCalls s)) (currentPrompts s),
       uuidCalls := Suc (uuidCalls s)\<rparr>"
| "promptStep uuids s (AnalysisStarted vibe) = s\<lparr>currentPrompts := analysisPlaceholder vibe\<rparr>"
| "promptStep uuids s (AnalysisFinished suggestions) =
     s\<lparr>currentPrompts :=
         analysisPrompts (map uuids [uuidCalls s..<uuidCalls s + length suggestions])
           suggestions (currentPrompts s),
       uuidCalls :=
         (if length suggestions > 0 then uuidCalls s + length suggestions else uuidCalls s)\<rparr>"
| "promptStep uuids s (RegenerateStarted ident) =
     s\<lparr>currentPrompts := regenerateStarted ident (currentPrompts s)\<rparr>"
| "promptStep uuids s (RegenerateFinished ident newText) =
     s\<lparr>currentPrompts := regenerateFinished ident newText (currentPrompts s)\<rparr>"
| "promptStep uuids s (RegenerateFailed ident) =
     s\<lparr>currentPrompts := regenerateFailed ident (currentPrompts s)\<rparr>"
| "promptStep uuids s (OtherUUIDs k) = s\<lparr>uuidCalls := uuidCalls s + k\<rparr>"

definition initialPromptState :: PromptState where
  "initialPromptState =
     \<lparr>renderedPrompts = initialPrompts, currentPrompts = initialPrompts, uuidCalls = 0\<rparr>"

definition promptRun :: "(nat \<Rightarrow> string) \<Rightarrow> PromptEvent list \<Rightarrow> PromptState" where
  "promptRun uuids events = foldl (promptStep uuids) initialPromptState events"

text \<open>The state the component starts in, when no settings were saved.\<close>

definition initialState :: AppState where
  "initialState =
     \<lparr>sourceImage = None,
      selectedFrames = [Frame_Auto],
      selectedLighting = [Lighting_Auto],
      selectedTextures = [Texture_Auto],
      editablePrompts = initialPrompts,
      settings = DEFAULT_SETTINGS,
      results = [],
      isGenerating = False,
      upscalingId = None,
      loadingMessage = [],
      alerts = []\<rparr>"

section \<open>Vocabulary of the claims\<close>



text \<open>What \<open>generateMockup\<close> returns to the job at index \<open>i\<close> of a batch.\<close>

definition jobOutcome :: "World \<Rightarrow> AppState \<Rightarrow> string \<Rightarrow> nat \<Rightarrow> js_error + string list" where
  "jobOutcome world st base64Image i =
     generateMockup (generateContent world i) (keys world) base64Image
       (batchSettings st i (editablePrompts st ! i))"

section \<open>Example inputs\<close>

text \<open>Two credential environments: no key anywhere, and a key entered by the user.\<close>

definition noKeys :: KeyEnvironment where
  "noKeys = \<lparr>env_API_KEY = None, env_GEMINI_API_KEY = None, aistudioKey = None,
     storedKey = None\<rparr>"

definition storedKeyOnly :: KeyEnvironment where
  "storedKeyOnly = noKeys\<lparr>storedKey := Some ''AIzaSyExample-key-0001''\<rparr>"

text \<open>A source of identifiers that never repeats.\<close>

definition exampleUUIDs :: "nat \<Rightarrow> string" where
  "exampleUUIDs n = ''uuid-'' @ replicate n CHR ''x''"

text \<open>A state with an image, two selected frame styles and five prompt entries.\<close>

definition fivePrompts :: AppState where
  "fivePrompts =
     initialState
       \<lparr>sourceImage := Some ''data:image/jpeg;base64,AAAA'',
        selectedFrames := [Sleek_Black, Natural_Oak],
        editablePrompts :=
          [\<lparr>entryId = ''p0'', entryText = ''A gallery wall'', isRegenerating = None\<rparr>,
           \<lparr>entryId = ''p1'', entryText = ''A loft'', isRegenerating = None\<rparr>,
           \<lparr>entryId = ''p2'', entryText = ''A cafe'', isRegenerating = None\<rparr>,
           \<lparr>entryId = ''p3'', entryText = ''A studio'', isRegenerating = None\<rparr>,
           \<lparr>entryId = ''p4'', entryText = ''A hallway'', isRegenerating = None\<rparr>]\<rparr>"

text \<open>
  A response that carries an image after a text part, and a world with a stored key in which
  the remote call of the jobs in \<open>failing\<close> always fails with a 503 and every other call
  returns that response at once.
\<close>

definition imageResponse :: GenerateContentResponse where
  "imageResponse =
     \<lparr>responseText = None,
      candidates =
        Some [Candidate (Some (Content (Some
          [Part None, Part (Some (InlineData (Some ''iVBORw0KGgo='')))])))]\<rparr>"

definition exampleWorld :: "nat set \<Rightarrow> World" where
  "exampleWorld failing =
     \<lparr>keys = storedKeyOnly,
      generateContent =
        (\<lambda>job slot request c.
           if job \<in> failing then Rejected (Error ''503 Service Unavailable'')
           else Resolved imageResponse),
      randomUUID = (\<lambda>job k. ''uuid-'' @ replicate job CHR ''j'' @ ''-'' @ replicate k CHR ''k''),
      dateNow = (\<lambda>job k. 1700000000000 + int job)\<rparr>"

text \<open>The initial state with an image loaded, and a state that holds one Draft result.\<close>

definition onePrompt :: AppState where
  "onePrompt = initialState\<lparr>sourceImage := Some ''data:image/jpeg;base64,AAAA''\<rparr>"

definition draftResult :: MockupResult where
  "draftResult =
     \<lparr>resultId = ''r-1'',
      imageUrl = Some ''data:image/png;base64,AAAA'',
      resultPrompt = ''A gallery wall'',
      createdAt = 1690000000000,
      isHighRes = Some False\<rparr>"

definition withDraft :: AppState where
  "withDraft = onePrompt\<lparr>results := [draftResult]\<rparr>"

section \<open>Properties of the retry policy\<close>

lemma retry_loop_calls_le:
  "calls (retry_loop fn retries baseDelay i c ws) \<le> c + nat (retries - i)"
proof (induction fn retries baseDelay i c ws rule: retry_loop.induct)
  case (1 fn retries baseDelay i c ws)
  show ?case
  proof (cases "i < retries")
    case False
    then show ?thesis by (simp add: retry_loop.simps)
  next
    case True
    show ?thesis
    proof (cases "fn c")
      case (Resolved v)
      with True show ?thesis by (simp add: retry_loop.simps)
    next
      case (Rejected e)
      show ?thesis
      proof (cases "\<not> isTransient e \<or> i = retries - 1")
        case stop: True
        with True Rejected show ?thesis by (auto simp add: retry_loop.simps)
      next
        case go: False
        from "1.IH"[OF True Rejected refl] go
        have "calls (retry_loop fn retries baseDelay (i + 1) (Suc c) (ws @ [baseDelay * 2 ^ nat i]))
                \<le> Suc c + nat (retries - (i + 1))" by simp
        moreover have "retry_loop fn retries baseDelay i c ws
             = retry_loop fn retries baseDelay (i + 1) (Suc c) (ws @ [baseDelay * 2 ^ nat i])"
          using True Rejected go by (subst retry_loop.simps) simp
        ultimately show ?thesis using True by simp
      qed
    qed
  qed
qed

lemma retry_loop_calls_ge:
  "i < retries \<Longrightarrow> Suc c \<le> calls (retry_loop fn retries baseDelay i c ws)"
proof (induction fn retries baseDelay i c ws rule: retry_loop.induct)
  case (1 fn retries baseDelay i c ws)
  show ?case
  proof (cases "fn c")
    case (Resolved v)
    with "1.prems" show ?thesis by (simp add: retry_loop.simps)
  next
    case (Rejected e)
    show ?thesis
    proof (cases "\<not> isTransient e \<or> i = retries - 1")
      case True
      with "1.prems" Rejected show ?thesis by (auto simp add: retry_loop.simps)
    next
      case False
      then have more: "i + 1 < retries" using "1.prems" by simp
      have "Suc (Suc c) \<le> calls (retry_loop fn retries baseDelay (i + 1) (Suc c)
                (ws @ [baseDelay * 2 ^ nat i]))"
        using "1.IH"[OF "1.prems" Rejected refl _ more] False by simp
      moreover have "retry_loop fn retries baseDelay i c ws
           = retry_loop fn retries baseDelay (i + 1) (Suc c) (ws @ [baseDelay * 2 ^ nat i])"
        using "1.prems" Rejected False by (subst retry_loop.simps) simp
      ultimately show ?thesis by simp
    qed
  qed
qed

lemma retry_calls_le: "calls (retry fn retries baseDelay) \<le> nat retries"
  using retry_loop_calls_le[of fn retries baseDelay 0 0 "[]"] by (simp add: retry_def)

lemma retry_loop_skip:
  "\<lbrakk>\<forall>j<k. transientFailure (fn (c + j)); 0 \<le> i; i + int k < retries\<rbrakk> \<Longrightarrow>
   retry_loop fn retries baseDelay i c ws =
   retry_loop fn retries baseDelay (i + int k) (c + k)
     (ws @ map (\<lambda>j. baseDelay * 2 ^ (nat i + j)) [0..<k])"
proof (induction k arbitrary: i c ws)
  case 0
  then show ?case by simp
next
  case (Suc k)
  from Suc.prems(1) have t0: "transientFailure (fn c)" by (metis add.right_neutral zero_less_Suc)
  then obtain e where e: "fn c = Rejected e" "isTransient e"
    by (auto simp: transientFailure_def split: outcome.splits)
  have rest: "\<forall>j<k. transientFailure (fn (Suc c + j))"
    using Suc.prems(1) by (metis Suc_less_eq add_Suc_shift)
  have step: "retry_loop fn retries baseDelay i c ws
      = retry_loop fn retries baseDelay (i + 1) (Suc c) (ws @ [baseDelay * 2 ^ nat i])"
    using e Suc.prems by (subst retry_loop.simps) simp
  have "retry_loop fn retries baseDelay (i + 1) (Suc c) (ws @ [baseDelay * 2 ^ nat i])
      = retry_loop fn retries baseDelay (i + 1 + int k) (Suc c + k)
          ((ws @ [baseDelay * 2 ^ nat i]) @ map (\<lambda>j. baseDelay * 2 ^ (nat (i + 1) + j)) [0..<k])"
    using Suc.prems by (intro Suc.IH[OF rest]) auto
  moreover have "map (\<lambda>j. baseDelay * 2 ^ (nat i + j)) [0..<Suc k]
      = baseDelay * 2 ^ nat i # map (\<lambda>j. baseDelay * 2 ^ (nat (i + 1) + j)) [0..<k]"
    using Suc.prems(2)
    by (simp add: upt_conv_Cons map_Suc_upt [symmetric] nat_add_distrib del: upt_Suc)
  ultimately show ?case using step by (simp add: add.commute add.left_commute del: upt_Suc)
qed

lemma retry_prefix:
  assumes "\<forall>j<k. transientFailure (fn j)" "int k < retries"
  shows "retry fn retries baseDelay
           = retry_loop fn retries baseDelay (int k) k (backoff baseDelay k)"
  using retry_loop_skip[of k fn 0 0 retries baseDelay "[]"] assms
  by (simp add: retry_def backoff_def)

lemma retry_resolved:
  assumes "\<forall>j<k. transientFailure (fn j)" "int k < retries" "fn k = Resolved v"
  shows "retry fn retries baseDelay
           = \<lparr>settled = Resolved v, calls = Suc k, waits = backoff baseDelay k\<rparr>"
  using assms by (simp add: retry_prefix[OF assms(1,2)] retry_loop.simps)

lemma retry_terminal:
  assumes "\<forall>j<k. transientFailure (fn j)" "int k < retries" "fn k = Rejected e"
    "\<not> isTransient e"
  shows "retry fn retries baseDelay
           = \<lparr>settled = Rejected e, calls = Suc k, waits = backoff baseDelay k\<rparr>"
  using assms by (simp add: retry_prefix[OF assms(1,2)] retry_loop.simps)

lemma retry_exhausted:
  assumes "1 \<le> retries" "\<forall>j<nat retries - 1. transientFailure (fn j)"
    "fn (nat retries - 1) = Rejected e"
  shows "retry fn retries baseDelay
           = \<lparr>settled = Rejected e, calls = nat retries,
               waits = backoff baseDelay (nat retries - 1)\<rparr>"
proof -
  have k: "int (nat retries - 1) < retries" using assms(1) by simp
  have last: "int (nat retries - 1) = retries - 1" using assms(1) by simp
  show ?thesis
    using assms(1,3) by (simp add: retry_prefix[OF assms(2) k] retry_loop.simps last)
qed

lemma retry_none:
  "retries \<le> 0 \<Longrightarrow> retry fn retries baseDelay
     = \<lparr>settled = Rejected (Error ''Max retries reached''), calls = 0, waits = []\<rparr>"
  by (simp add: retry_def retry_loop.simps)

text \<open>
  Claim C4. With \<open>maxAttempts \<ge> 1\<close>, \<open>retry\<close> invokes the operation at least once and at most
  \<open>maxAttempts\<close> times. If the invocations before number \<open>k\<close> (\<open>k < maxAttempts\<close>) were all
  rejected with a transient error, then \<open>retry\<close> has waited \<open>baseDelay * 2 ^ j\<close> after
  invocation \<open>j\<close> for each \<open>j < k\<close>, and: if invocation \<open>k\<close> is rejected with a terminal error,
  \<open>retry\<close> fails with that error after \<open>k + 1\<close> invocations and no further delay; if it
  resolves, \<open>retry\<close> returns its value; and if \<open>k\<close> is the last attempt, \<open>retry\<close> fails with the
  error of that last invocation. An operation that fails transiently twice and then succeeds
  gives, under \<open>retry(op, 3, 100)\<close>, its value after delays of 100 and 200 ms, 300 ms in all.
\<close>

theorem retry_policy:
  assumes n: "1 \<le> maxAttempts"
  shows
    "1 \<le> calls (retry fn maxAttempts baseDelay)
   \<and> calls (retry fn maxAttempts baseDelay) \<le> nat maxAttempts
   \<and> (\<forall>k e. int k < maxAttempts \<and> (\<forall>j<k. transientFailure (fn j))
         \<and> fn k = Rejected e \<and> \<not> isTransient e \<longrightarrow>
         retry fn maxAttempts baseDelay
           = \<lparr>settled = Rejected e, calls = Suc k, waits = backoff baseDelay k\<rparr>)
   \<and> (\<forall>k v. int k < maxAttempts \<and> (\<forall>j<k. transientFailure (fn j))
         \<and> fn k = Resolved v \<longrightarrow>
         retry fn maxAttempts baseDelay
           = \<lparr>settled = Resolved v, calls = Suc k, waits = backoff baseDelay k\<rparr>)
   \<and> (\<forall>e. (\<forall>j<nat maxAttempts - 1. transientFailure (fn j))
         \<and> fn (nat maxAttempts - 1) = Rejected e \<longrightarrow>
         retry fn maxAttempts baseDelay
           = \<lparr>settled = Rejected e, calls = nat maxAttempts,
               waits = backoff baseDelay (nat maxAttempts - 1)\<rparr>)
   \<and> (\<forall>e1 e2 v. isTransient e1 \<and> isTransient e2 \<longrightarrow>
         retry (\<lambda>c. if c = 0 then Rejected e1 else if c = 1 then Rejected e2 else Resolved v)
             3 100
           = \<lparr>settled = Resolved v, calls = 3, waits = [100, 200]\<rparr>
         \<and> sum_list (waits (retry
               (\<lambda>c. if c = 0 then Rejected e1 else if c = 1 then Rejected e2 else Resolved v)
               3 100)) = 300)"
proof -
  have least: "1 \<le> calls (retry fn maxAttempts baseDelay)"
    using n retry_loop_calls_ge[where i = 0 and retries = maxAttempts and c = 0 and fn = fn
        and baseDelay = baseDelay and ws = "[]"] by (simp add: retry_def)
  have most: "calls (retry fn maxAttempts baseDelay) \<le> nat maxAttempts"
    by (rule retry_calls_le)
  have terminal: "\<forall>k e. int k < maxAttempts \<and> (\<forall>j<k. transientFailure (fn j))
         \<and> fn k = Rejected e \<and> \<not> isTransient e \<longrightarrow>
         retry fn maxAttempts baseDelay
           = \<lparr>settled = Rejected e, calls = Suc k, waits = backoff baseDelay k\<rparr>"
    by (simp add: retry_terminal)
  have resolved: "\<forall>k v. int k < maxAttempts \<and> (\<forall>j<k. transientFailure (fn j))
         \<and> fn k = Resolved v \<longrightarrow>
         retry fn maxAttempts baseDelay
           = \<lparr>settled = Resolved v, calls = Suc k, waits = backoff baseDelay k\<rparr>"
    by (simp add: retry_resolved)
  have exhausted: "\<forall>e. (\<forall>j<nat maxAttempts - 1. transientFailure (fn j))
         \<and> fn (nat maxAttempts - 1) = Rejected e \<longrightarrow>
         retry fn maxAttempts baseDelay
           = \<lparr>settled = Rejected e, calls = nat maxAttempts,
               waits = backoff baseDelay (nat maxAttempts - 1)\<rparr>"
    using n by (simp add: retry_exhausted)
  have example: "\<forall>e1 e2 v. isTransient e1 \<and> isTransient e2 \<longrightarrow>
         retry (\<lambda>c. if c = 0 then Rejected e1 else if c = 1 then Rejected e2 else Resolved v)
             3 100
           = \<lparr>settled = Resolved v, calls = 3, waits = [100, 200]\<rparr>
         \<and> sum_list (waits (retry
               (\<lambda>c. if c = 0 then Rejected e1 else if c = 1 then Rejected e2 else Resolved v)
               3 100)) = 300"
  proof (intro allI impI)
    fix e1 e2 v
    assume t: "isTransient e1 \<and> isTransient e2"
    let ?op = "\<lambda>c::nat. if c = 0 then Rejected e1 else if c = 1 then Rejected e2
                 else Resolved v"
    have "\<forall>j<2. transientFailure (?op j)"
      using t by (auto simp: transientFailure_def)
    from retry_resolved[of 2 ?op 3 v 100, OF this]
    have run: "retry ?op 3 100 = \<lparr>settled = Resolved v, calls = 3, waits = [100, 200]\<rparr>"
      by (simp add: backoff_def numeral_2_eq_2 numeral_3_eq_3)
    show "retry ?op 3 100 = \<lparr>settled = Resolved v, calls = 3, waits = [100, 200]\<rparr>
        \<and> sum_list (waits (retry ?op 3 100)) = 300"
      by (simp add: run)
  qed
  show ?thesis
    by (intro conjI) (fact least, fact most, fact terminal, fact resolved, fact exhausted,
      fact example)
qed

text \<open>
  The run of claim C4's example, with a 503 and a 429 as the two transient errors.
\<close>

text \<open>
  The run of claim C4's example, with a 503 and a 429 as the two transient errors.
\<close>

theorem retry_policy_witness:
  "(1 :: int) \<le> 3
   \<and> transientFailure (Rejected (Error ''503 Service Unavailable'') :: string outcome)
   \<and> transientFailure (Rejected (Error ''429 Too Many Requests'') :: string outcome)
   \<and> retry (\<lambda>c. if c = 0 then Rejected (Error ''503 Service Unavailable'')
                  else if c = 1 then Rejected (Error ''429 Too Many Requests'')
                  else Resolved ''ok'') 3 100
       = \<lparr>settled = Resolved ''ok'', calls = 3, waits = [100, 200]\<rparr>"
proof -
  let ?op = "\<lambda>c::nat. if c = 0 then Rejected (Error ''503 Service Unavailable'')
                  else if c = 1 then Rejected (Error ''429 Too Many Requests'')
                  else Resolved ''ok''"
  have n: "(1 :: int) \<le> 3" by simp
  have t0: "transientFailure (Rejected (Error ''503 Service Unavailable'') :: string outcome)"
    by (simp add: transientFailure_def isTransient_def Error_def)
  have t1: "transientFailure (Rejected (Error ''429 Too Many Requests'') :: string outcome)"
    by (simp add: transientFailure_def isTransient_def Error_def)
  have before: "\<forall>j<2. transientFailure (?op j)"
    using t0 t1 by (simp add: less_Suc_eq numeral_2_eq_2)
  note run = retry_policy[OF n, of ?op 100, THEN conjunct2, THEN conjunct2, THEN conjunct2,
      THEN conjunct1, rule_format, of 2 "''ok''"]
  have "retry ?op 3 100
      = \<lparr>settled = Resolved ''ok'', calls = Suc 2, waits = backoff 100 2\<rparr>"
    by (rule run) (use before in simp)
  then have "retry ?op 3 100 = \<lparr>settled = Resolved ''ok'', calls = 3, waits = [100, 200]\<rparr>"
    by (simp add: backoff_def numeral_2_eq_2)
  with n t0 t1 show ?thesis by (intro conjI)
qed

text \<open>
  Claim C10. Called with \<open>retries \<le> 0\<close>, \<open>retry\<close> fails with the error
  "Max retries reached" and never invokes the wrapped operation; for every \<open>retries\<close> the
  operation is invoked at most \<open>max(retries, 0)\<close> times.
\<close>

theorem retry_no_attempts:
  "(retries \<le> 0 \<longrightarrow>
      settled (retry fn retries baseDelay) = Rejected (Error ''Max retries reached'')
      \<and> toString (Error ''Max retries reached'') = ''Error: Max retries reached''
      \<and> calls (retry fn retries baseDelay) = 0
      \<and> waits (retry fn retries baseDelay) = [])
   \<and> int (calls (retry fn retries baseDelay)) \<le> max retries 0"
  using retry_calls_le[of fn retries baseDelay]
  by (auto simp add: retry_none Error_def)

theorem retry_no_attempts_witness:
  "(0 :: int) \<le> 0
   \<and> settled (retry (\<lambda>c. Resolved ''never'') 0 2000)
       = Rejected (Error ''Max retries reached'')
   \<and> calls (retry (\<lambda>c. Resolved ''never'') 0 2000) = 0
   \<and> calls (retry (\<lambda>c. Resolved ''never'') (- 2) 2000) = 0"
  using retry_no_attempts[of 0 "\<lambda>c. Resolved ''never''" 2000]
    retry_no_attempts[of "- 2" "\<lambda>c. Resolved ''never''" 2000]
  by simp

lemma retry_always_resolved:
  assumes "fn 0 = Resolved response"
  shows "settled (retry fn 3 2000) = Resolved response"
  using retry_resolved[of 0 fn 3 response 2000] assms by simp

lemma retry_always_rejected:
  assumes "\<forall>c. fn c = Rejected error"
  shows "settled (retry fn 3 2000) = Rejected error"
proof (cases "isTransient error")
  case True
  then show ?thesis
    using retry_exhausted[of 3 fn error 2000] assms by (simp add: transientFailure_def)
next
  case False
  then show ?thesis
    using retry_terminal[of 0 fn 3 error 2000] assms by simp
qed

section \<open>Properties of the prompt composer\<close>

lemma includes_text_sublist: "includes_text s w \<longleftrightarrow> sublist w s"
  by (induction s) (simp_all add: sublist_Cons_right)

lemma includes_text_appendI: "includes_text (ps @ w @ ss) w"
  by (simp add: includes_text_sublist)

lemma includes_text_append_last:
  assumes "xs \<noteq> []" "last xs \<notin> set w"
  shows "includes_text (xs @ ys) w \<longleftrightarrow> includes_text xs w \<or> includes_text ys w"
proof -
  have "sublist w ys" if "w = w1 @ w2" "suffix w1 xs" "prefix w2 ys" for w1 w2
  proof (cases "w1 = []")
    case True
    with that show ?thesis by simp
  next
    case False
    from that(2) obtain zs where "xs = zs @ w1" by (auto simp: suffix_def)
    with False have "last xs = last w1" by simp
    with False that(1) assms(2) show ?thesis by (metis Un_iff last_in_set set_append)
  qed
  then show ?thesis
    unfolding includes_text_sublist sublist_append by blast
qed

lemma includes_text_append_hd:
  assumes "ys \<noteq> []" "hd ys \<notin> set w"
  shows "includes_text (xs @ ys) w \<longleftrightarrow> includes_text xs w \<or> includes_text ys w"
proof -
  have "sublist w xs" if "w = w1 @ w2" "suffix w1 xs" "prefix w2 ys" for w1 w2
  proof (cases "w2 = []")
    case True
    with that show ?thesis by simp
  next
    case False
    from that(3) obtain zs where "ys = w2 @ zs" by (auto simp: prefix_def)
    with False have "hd ys = hd w2" by simp
    with False that(1) assms(2) show ?thesis by (metis Un_iff hd_in_set set_append)
  qed
  then show ?thesis
    unfolding includes_text_sublist sublist_append by blast
qed

lemma strip_keeps:
  "c \<in> set s \<Longrightarrow> \<forall>w\<in>set ws. c \<notin> set w \<Longrightarrow> c \<in> set (strip ws s)"
proof (induction ws s rule: strip.induct)
  case (1 ws s)
  show ?case
  proof (cases "find (\<lambda>w. w \<noteq> [] \<and> prefix w s) ws")
    case None
    with "1.prems" show ?thesis by (simp add: strip.simps)
  next
    case (Some w)
    then have w: "w \<in> set ws" "prefix w s"
      by (auto simp: find_Some_iff)
    then have "s = w @ drop (length w) s" by (auto simp: prefix_def)
    then have "set s = set w \<union> set (drop (length w) s)" by (metis set_append)
    with "1.prems" w(1) have "c \<in> set (drop (length w) s)" by auto
    from "1.IH"[OF Some this "1.prems"(2)] Some show ?thesis by (simp add: strip.simps)
  qed
qed

lemma trim_keeps:
  assumes "c \<in> set s" "\<forall>w\<in>set whiteSpace. c \<notin> set w"
  shows "c \<in> set (trim s)"
proof -
  have "c \<in> set (strip whiteSpace s)" using assms by (rule strip_keeps)
  then have "c \<in> set (rev (strip whiteSpace s))" by simp
  then have "c \<in> set (strip (map rev whiteSpace) (rev (strip whiteSpace s)))"
    using assms(2) by (intro strip_keeps) auto
  then show ?thesis by (simp add: trim_def)
qed

lemma includes_text_set: "includes_text s w \<Longrightarrow> set w \<subseteq> set s"
  by (simp add: includes_text_sublist set_mono_sublist)

lemma letter_not_whiteSpace:
  "c \<in> set ''Autoframegls'' \<Longrightarrow> \<forall>w\<in>set whiteSpace. c \<notin> set w"
  by (auto simp add: whiteSpace_def)

lemma includes_join_base:
  assumes "a \<noteq> []" "last a \<notin> set w"
    and "b \<noteq> []" "hd b \<notin> set w" "last b \<notin> set w"
    and "c \<noteq> []" "hd c \<notin> set w" "last c \<notin> set w"
    and "d \<noteq> []" "hd d \<notin> set w" "last d \<notin> set w"
    and "e \<noteq> []" "hd e \<notin> set w" "last e \<notin> set w"
    and "f \<noteq> []" "hd f \<notin> set w"
  shows "includes_text (a @ Q @ b @ p @ c @ E @ d @ F @ e @ P @ f) w \<longleftrightarrow>
     includes_text a w \<or> includes_text Q w \<or> includes_text b w \<or> includes_text p w
     \<or> includes_text c w \<or> includes_text E w \<or> includes_text d w \<or> includes_text F w
     \<or> includes_text e w \<or> includes_text P w \<or> includes_text f w"
proof -
  have 1: "includes_text (P @ f) w \<longleftrightarrow> includes_text P w \<or> includes_text f w"
    using assms by (simp add: includes_text_append_hd)
  have 2: "includes_text (e @ P @ f) w \<longleftrightarrow> includes_text e w \<or> includes_text (P @ f) w"
    using assms by (simp add: includes_text_append_last)
  have 3: "includes_text (F @ e @ P @ f) w \<longleftrightarrow> includes_text F w \<or> includes_text (e @ P @ f) w"
    using assms by (simp add: includes_text_append_hd)
  have 4: "includes_text (d @ F @ e @ P @ f) w
      \<longleftrightarrow> includes_text d w \<or> includes_text (F @ e @ P @ f) w"
    using assms by (simp add: includes_text_append_last)
  have 5: "includes_text (E @ d @ F @ e @ P @ f) w
      \<longleftrightarrow> includes_text E w \<or> includes_text (d @ F @ e @ P @ f) w"
    using assms by (simp add: includes_text_append_hd)
  have 6: "includes_text (c @ E @ d @ F @ e @ P @ f) w
      \<longleftrightarrow> includes_text c w \<or> includes_text (E @ d @ F @ e @ P @ f) w"
    using assms by (simp add: includes_text_append_last)
  have 7: "includes_text (p @ c @ E @ d @ F @ e @ P @ f) w
      \<longleftrightarrow> includes_text p w \<or> includes_text (c @ E @ d @ F @ e @ P @ f) w"
    using assms by (simp add: includes_text_append_hd)
  have 8: "includes_text (b @ p @ c @ E @ d @ F @ e @ P @ f) w
      \<longleftrightarrow> includes_text b w \<or> includes_text (p @ c @ E @ d @ F @ e @ P @ f) w"
    using assms by (simp add: includes_text_append_last)
  have 9: "includes_text (Q @ b @ p @ c @ E @ d @ F @ e @ P @ f) w
      \<longleftrightarrow> includes_text Q w \<or> includes_text (b @ p @ c @ E @ d @ F @ e @ P @ f) w"
    using assms by (simp add: includes_text_append_hd)
  have 10: "includes_text (a @ Q @ b @ p @ c @ E @ d @ F @ e @ P @ f) w
      \<longleftrightarrow> includes_text a w \<or> includes_text (Q @ b @ p @ c @ E @ d @ F @ e @ P @ f) w"
    using assms by (simp add: includes_text_append_last)
  show ?thesis unfolding 10 9 8 7 6 5 4 3 2 1 by simp
qed

lemma qualityPrefix_words:
  "\<not> includes_text qualityPrefix ''Auto''" "\<not> includes_text qualityPrefix ''frame''"
  by (simp_all add: qualityPrefix_def)

lemma physicalInteraction_words:
  "\<not> includes_text physicalInteraction ''Auto''"
  "\<not> includes_text physicalInteraction ''frame''"
  by (simp_all add: physicalInteraction_def)

lemma sizeContext_cases:
  "sizeContext s = ''A1'' \<or> sizeContext s = ''A2'' \<or> sizeContext s = ''A3''
   \<or> sizeContext s = ''A4''"
  by (cases "printSize s") (simp_all add: sizeContext_def)

lemma lighting_words:
  assumes "lighting s \<noteq> Some Lighting_Auto"
  shows "\<not> includes_text (interpolate LightingStyle_text (lighting s)) ''Auto''"
    and "\<not> includes_text (interpolate LightingStyle_text (lighting s)) ''frame''"
  using assms
  by (cases "lighting s"; cases "the (lighting s)"; simp add: interpolate_def)+

lemma wallTexture_words:
  assumes "wallTexture s \<noteq> Some Texture_Auto"
  shows "\<not> includes_text (interpolate WallTexture_text (wallTexture s)) ''Auto''"
    and "\<not> includes_text (interpolate WallTexture_text (wallTexture s)) ''frame''"
  using assms
  by (cases "wallTexture s"; cases "the (wallTexture s)"; simp add: interpolate_def)+

lemma envContext_words:
  "\<not> includes_text (envContext s) ''Auto''" "\<not> includes_text (envContext s) ''frame''"
  using lighting_words[of s] wallTexture_words[of s]
  by (simp_all add: envContext_def Let_def includes_text_append_last includes_text_append_hd)

lemma frameStyle_Auto_free:
  assumes "frameStyle s \<noteq> Some Frame_Auto"
  shows "\<not> includes_text (interpolate FrameStyle_text (frameStyle s)) ''Auto''"
  using assms
  by (cases "frameStyle s"; cases "the (frameStyle s)"; simp add: interpolate_def)

lemma frameContext_Auto: "\<not> includes_text (frameContext s) ''Auto''"
  using sizeContext_cases[of s] frameStyle_Auto_free[of s]
  by (auto simp add: frameContext_def includes_text_append_last includes_text_append_hd)

lemma frameContext_None:
  assumes "frameStyle s = Some Frame_None"
  shows "\<not> includes_text (frameContext s) ''frame''"
    and "\<not> includes_text (frameContext s) ''glass''"
    and "\<not> includes_text (frameContext s) ''reflection''"
  using sizeContext_cases[of s] assms
  by (auto simp add: frameContext_def includes_text_append_last includes_text_append_hd)

lemma finalPrompt0_Auto:
  "includes_text (finalPrompt0 s) ''Auto'' \<longleftrightarrow> includes_text (prompt s) ''Auto''"
  unfolding finalPrompt0_def
  by (subst includes_join_base)
     (simp_all add: qualityPrefix_words physicalInteraction_words envContext_words
        frameContext_Auto)

lemma finalPrompt0_frame:
  "frameStyle s = Some Frame_None \<Longrightarrow>
   includes_text (finalPrompt0 s) ''frame'' \<longleftrightarrow> includes_text (prompt s) ''frame''"
  unfolding finalPrompt0_def
  by (subst includes_join_base)
     (simp_all add: qualityPrefix_words physicalInteraction_words envContext_words
        frameContext_None)

lemma finalPrompt0_ends: "finalPrompt0 s \<noteq> [] \<and> last (finalPrompt0 s) = CHR '' ''"
  by (simp add: finalPrompt0_def last_appendR del: last_append)

lemma not_includes_dot:
  assumes "CHR ''.'' \<notin> set w" "w \<noteq> []"
  shows "\<not> includes_text ''.'' w"
  using assms by (cases w) auto

lemma includes_negative_clause:
  assumes "CHR '' '' \<notin> set w" "CHR ''.'' \<notin> set w" "w \<noteq> []"
  shows "includes_text (finalPrompt0 s @ '' Do NOT include: '' @ n @ ''.'') w
     \<longleftrightarrow> includes_text (finalPrompt0 s) w \<or> includes_text '' Do NOT include: '' w
         \<or> includes_text n w"
proof -
  have a: "includes_text (finalPrompt0 s @ '' Do NOT include: '' @ n @ ''.'') w
      \<longleftrightarrow> includes_text (finalPrompt0 s) w \<or> includes_text ('' Do NOT include: '' @ n @ ''.'') w"
  proof (rule includes_text_append_last)
    show "finalPrompt0 s \<noteq> []" using finalPrompt0_ends[of s] by blast
    show "last (finalPrompt0 s) \<notin> set w" using finalPrompt0_ends[of s] assms(1) by metis
  qed
  have b: "includes_text ('' Do NOT include: '' @ n @ ''.'') w
      \<longleftrightarrow> includes_text '' Do NOT include: '' w \<or> includes_text (n @ ''.'') w"
  proof (rule includes_text_append_last)
    show "'' Do NOT include: '' \<noteq> []" by simp
    show "last '' Do NOT include: '' \<notin> set w" using assms(1) by simp
  qed
  have c: "includes_text (n @ ''.'') w \<longleftrightarrow> includes_text n w \<or> includes_text ''.'' w"
  proof (rule includes_text_append_hd)
    show "''.'' \<noteq> []" by simp
    show "hd ''.'' \<notin> set w" using assms(2) by simp
  qed
  show ?thesis unfolding a b c using not_includes_dot[OF assms(2,3)] by blast
qed

lemma negative_included:
  assumes "includes_text n w" "c \<in> set w" "\<forall>x\<in>set whiteSpace. c \<notin> set x"
  shows "n \<noteq> [] \<and> length (trim n) > 0"
proof -
  have "c \<in> set n" using assms(1,2) includes_text_set by blast
  then have "c \<in> set (trim n)" using assms(3) by (rule trim_keeps)
  with \<open>c \<in> set n\<close> show ?thesis by auto
qed

lemma finalPrompt_Auto:
  "includes_text (finalPrompt s) ''Auto''
     \<longleftrightarrow> includes_text (prompt s) ''Auto'' \<or> includes_text (negativePrompt s) ''Auto''"
proof (cases "negativePrompt s \<noteq> [] \<and> length (trim (negativePrompt s)) > 0")
  case True
  have eq: "finalPrompt s
      = finalPrompt0 s @ '' Do NOT include: '' @ negativePrompt s @ ''.''"
    by (simp only: finalPrompt_def if_P[OF True])
  show ?thesis
    unfolding eq by (subst includes_negative_clause) (simp_all add: finalPrompt0_Auto)
next
  case False
  then have "\<not> includes_text (negativePrompt s) ''Auto''"
    using negative_included[of "negativePrompt s" "''Auto''" "CHR ''A''"]
      letter_not_whiteSpace[of "CHR ''A''"] by auto
  then show ?thesis
    by (simp only: finalPrompt_def if_not_P[OF False] finalPrompt0_Auto simp_thms)
qed

lemma finalPrompt_frame:
  assumes "frameStyle s = Some Frame_None"
  shows "includes_text (finalPrompt s) ''frame''
     \<longleftrightarrow> includes_text (prompt s) ''frame'' \<or> includes_text (negativePrompt s) ''frame''"
proof (cases "negativePrompt s \<noteq> [] \<and> length (trim (negativePrompt s)) > 0")
  case True
  have eq: "finalPrompt s
      = finalPrompt0 s @ '' Do NOT include: '' @ negativePrompt s @ ''.''"
    by (simp only: finalPrompt_def if_P[OF True])
  show ?thesis
    unfolding eq
    by (subst includes_negative_clause) (simp_all add: finalPrompt0_frame[OF assms])
next
  case False
  then have "\<not> includes_text (negativePrompt s) ''frame''"
    using negative_included[of "negativePrompt s" "''frame''" "CHR ''f''"]
      letter_not_whiteSpace[of "CHR ''f''"] by auto
  then show ?thesis
    by (simp only: finalPrompt_def if_not_P[OF False] finalPrompt0_frame[OF assms] simp_thms)
qed

lemma includes_text_trans:
  "includes_text s w \<Longrightarrow> includes_text t s \<Longrightarrow> includes_text t w"
  unfolding includes_text_sublist by (rule sublist_order.order.trans)

lemma includes_finalPrompt0:
  "includes_text (finalPrompt0 s) w \<Longrightarrow> includes_text (finalPrompt s) w"
  unfolding includes_text_sublist finalPrompt_def
  by (auto intro: sublist_order.order.trans[OF _ sublist_append_rightI])

lemma includes_text_here: "includes_text (w @ ys) w"
  by (simp add: includes_text_sublist)

lemma includes_text_there: "includes_text ys w \<Longrightarrow> includes_text (xs @ ys) w"
  by (metis includes_text_sublist sublist_append)

lemma finalPrompt0_physics: "includes_text (finalPrompt0 s) physicalInteraction"
  unfolding finalPrompt0_def by (simp only: includes_text_here includes_text_there)

lemma finalPrompt0_frameContext: "includes_text (finalPrompt0 s) (frameContext s)"
  unfolding finalPrompt0_def by (simp only: includes_text_here includes_text_there)

lemma frameContext_named:
  assumes "frameStyle s = Some f" "f \<noteq> Frame_Auto" "f \<noteq> Frame_None"
  shows "includes_text (frameContext s) (FrameStyle_text f)"
  using assms by (cases f) (simp_all add: frameContext_def interpolate_def)

lemma physics_glass:
  "includes_text physicalInteraction ''If there is glass, show subtle reflections''"
  by (simp add: physicalInteraction_def)

lemma includes_join_head:
  assumes "a \<noteq> []" "last a \<notin> set w"
    and "b \<noteq> []" "hd b \<notin> set w" "last b \<notin> set w"
    and "c \<noteq> []" "hd c \<notin> set w" "last c \<notin> set w"
    and "d \<noteq> []" "hd d \<notin> set w" "last d \<notin> set w"
    and "e \<noteq> []" "hd e \<notin> set w"
  shows "includes_text (a @ Q @ b @ p @ c @ E @ d @ F @ e) w \<longleftrightarrow>
     includes_text a w \<or> includes_text Q w \<or> includes_text b w \<or> includes_text p w
     \<or> includes_text c w \<or> includes_text E w \<or> includes_text d w \<or> includes_text F w
     \<or> includes_text e w"
proof -
  have 3: "includes_text (F @ e) w \<longleftrightarrow> includes_text F w \<or> includes_text e w"
    using assms by (simp add: includes_text_append_hd)
  have 4: "includes_text (d @ F @ e) w \<longleftrightarrow> includes_text d w \<or> includes_text (F @ e) w"
    using assms by (simp add: includes_text_append_last)
  have 5: "includes_text (E @ d @ F @ e) w \<longleftrightarrow> includes_text E w \<or> includes_text (d @ F @ e) w"
    using assms by (simp add: includes_text_append_hd)
  have 6: "includes_text (c @ E @ d @ F @ e) w
      \<longleftrightarrow> includes_text c w \<or> includes_text (E @ d @ F @ e) w"
    using assms by (simp add: includes_text_append_last)
  have 7: "includes_text (p @ c @ E @ d @ F @ e) w
      \<longleftrightarrow> includes_text p w \<or> includes_text (c @ E @ d @ F @ e) w"
    using assms by (simp add: includes_text_append_hd)
  have 8: "includes_text (b @ p @ c @ E @ d @ F @ e) w
      \<longleftrightarrow> includes_text b w \<or> includes_text (p @ c @ E @ d @ F @ e) w"
    using assms by (simp add: includes_text_append_last)
  have 9: "includes_text (Q @ b @ p @ c @ E @ d @ F @ e) w
      \<longleftrightarrow> includes_text Q w \<or> includes_text (b @ p @ c @ E @ d @ F @ e) w"
    using assms by (simp add: includes_text_append_hd)
  have 10: "includes_text (a @ Q @ b @ p @ c @ E @ d @ F @ e) w
      \<longleftrightarrow> includes_text a w \<or> includes_text (Q @ b @ p @ c @ E @ d @ F @ e) w"
    using assms by (simp add: includes_text_append_last)
  show ?thesis unfolding 10 9 8 7 6 5 4 3 by simp
qed

lemma qualityPrefix_glass:
  "\<not> includes_text qualityPrefix ''glass''" "\<not> includes_text qualityPrefix ''reflection''"
  by (simp_all add: qualityPrefix_def)

lemma lighting_glass:
  assumes "lighting s \<noteq> Some Lighting_Auto"
  shows "\<not> includes_text (interpolate LightingStyle_text (lighting s)) ''glass''"
    and "\<not> includes_text (interpolate LightingStyle_text (lighting s)) ''reflection''"
  using assms
  by (cases "lighting s"; cases "the (lighting s)"; simp add: interpolate_def)+

lemma wallTexture_glass:
  assumes "wallTexture s \<noteq> Some Texture_Auto"
  shows "\<not> includes_text (interpolate WallTexture_text (wallTexture s)) ''glass''"
    and "\<not> includes_text (interpolate WallTexture_text (wallTexture s)) ''reflection''"
  using assms
  by (cases "wallTexture s"; cases "the (wallTexture s)"; simp add: interpolate_def)+

lemma envContext_glass:
  "\<not> includes_text (envContext s) ''glass''" "\<not> includes_text (envContext s) ''reflection''"
  using lighting_glass[of s] wallTexture_glass[of s]
  by (simp_all add: envContext_def Let_def includes_text_append_last includes_text_append_hd)

lemma includes_clause:
  assumes "x \<noteq> []" "last x = CHR '' ''"
    and "CHR '' '' \<notin> set w" "CHR ''.'' \<notin> set w" "w \<noteq> []"
  shows "includes_text (x @ '' Do NOT include: '' @ n @ ''.'') w
     \<longleftrightarrow> includes_text x w \<or> includes_text '' Do NOT include: '' w \<or> includes_text n w"
proof -
  have a: "includes_text (x @ '' Do NOT include: '' @ n @ ''.'') w
      \<longleftrightarrow> includes_text x w \<or> includes_text ('' Do NOT include: '' @ n @ ''.'') w"
  proof (rule includes_text_append_last)
    show "x \<noteq> []" by (rule assms(1))
    show "last x \<notin> set w" using assms(2,3) by simp
  qed
  have b: "includes_text ('' Do NOT include: '' @ n @ ''.'') w
      \<longleftrightarrow> includes_text '' Do NOT include: '' w \<or> includes_text (n @ ''.'') w"
  proof (rule includes_text_append_last)
    show "'' Do NOT include: '' \<noteq> []" by simp
    show "last '' Do NOT include: '' \<notin> set w" using assms(3) by simp
  qed
  have c: "includes_text (n @ ''.'') w \<longleftrightarrow> includes_text n w \<or> includes_text ''.'' w"
  proof (rule includes_text_append_hd)
    show "''.'' \<noteq> []" by simp
    show "hd ''.'' \<notin> set w" using assms(4) by simp
  qed
  show ?thesis unfolding a b c using not_includes_dot[OF assms(4,5)] by blast
qed

lemma finalPrompt_around_physics:
  assumes "frameStyle s = Some Frame_None"
  shows "\<exists>before after. finalPrompt s = before @ physicalInteraction @ after
     \<and> (\<forall>w \<in> {''frame'', ''glass'', ''reflection''}.
          (includes_text before w \<longleftrightarrow> includes_text (prompt s) w)
        \<and> (includes_text after w \<longleftrightarrow> includes_text (negativePrompt s) w))"
proof -
  define before where "before =
     ''\<newline>    '' @ qualityPrefix @ '' \<newline>    SCENE: '' @ prompt s @
     ''. \<newline>    DETAILS: '' @ envContext s @ '' \<newline>    PLACEMENT: '' @
     frameContext s @ '' \<newline>    PHYSICS: ''"
  define color where "color =
     ''\<newline>    COLOR: Apply a cohesive cinematic color grade that warps the colors '' @
     ''of the inserted artwork slightly to match the ambient light temperature '' @
     ''of the room. The artwork should not look like a digital overlay.\<newline>  ''"
  have split: "finalPrompt0 s = before @ physicalInteraction @ color"
    by (simp only: finalPrompt0_def before_def color_def append_assoc)
  have b1: "includes_text before ''frame'' \<longleftrightarrow> includes_text (prompt s) ''frame''"
    unfolding before_def
    by (subst includes_join_head)
       (simp_all add: qualityPrefix_words envContext_words frameContext_None[OF assms])
  have b2: "includes_text before ''glass'' \<longleftrightarrow> includes_text (prompt s) ''glass''"
    unfolding before_def
    by (subst includes_join_head)
       (simp_all add: qualityPrefix_glass envContext_glass frameContext_None[OF assms])
  have b3: "includes_text before ''reflection'' \<longleftrightarrow> includes_text (prompt s) ''reflection''"
    unfolding before_def
    by (subst includes_join_head)
       (simp_all add: qualityPrefix_glass envContext_glass frameContext_None[OF assms])
  have c0: "color \<noteq> []" "last color = CHR '' ''"
    by (simp_all add: color_def)
  have c1: "\<not> includes_text color ''frame''" "\<not> includes_text color ''glass''"
    "\<not> includes_text color ''reflection''"
    by (simp_all add: color_def)
  show ?thesis
  proof (cases "negativePrompt s \<noteq> [] \<and> length (trim (negativePrompt s)) > 0")
    case True
    define after where "after = color @ '' Do NOT include: '' @ negativePrompt s @ ''.''"
    have eq: "finalPrompt s = before @ physicalInteraction @ after"
      by (simp only: finalPrompt_def if_P[OF True] split after_def append_assoc)
    have a1: "includes_text after ''frame'' \<longleftrightarrow> includes_text (negativePrompt s) ''frame''"
      unfolding after_def by (subst includes_clause[OF c0]) (simp_all add: c1)
    have a2: "includes_text after ''glass'' \<longleftrightarrow> includes_text (negativePrompt s) ''glass''"
      unfolding after_def by (subst includes_clause[OF c0]) (simp_all add: c1)
    have a3: "includes_text after ''reflection''
        \<longleftrightarrow> includes_text (negativePrompt s) ''reflection''"
      unfolding after_def by (subst includes_clause[OF c0]) (simp_all add: c1)
    from eq b1 b2 b3 a1 a2 a3 show ?thesis by blast
  next
    case False
    have eq: "finalPrompt s = before @ physicalInteraction @ color"
      by (simp only: finalPrompt_def if_not_P[OF False] split)
    have n1: "\<not> includes_text (negativePrompt s) ''frame''"
      using False negative_included[of "negativePrompt s" "''frame''" "CHR ''f''"]
        letter_not_whiteSpace[of "CHR ''f''"] by auto
    have n2: "\<not> includes_text (negativePrompt s) ''glass''"
      using False negative_included[of "negativePrompt s" "''glass''" "CHR ''g''"]
        letter_not_whiteSpace[of "CHR ''g''"] by auto
    have n3: "\<not> includes_text (negativePrompt s) ''reflection''"
      using False negative_included[of "negativePrompt s" "''reflection''" "CHR ''r''"]
        letter_not_whiteSpace[of "CHR ''r''"] by auto
    from eq b1 b2 b3 c1 n1 n2 n3 show ?thesis by blast
  qed
qed

text \<open>
  Claim C2, as the code has it. With frame style "None" the composed text is the fixed
  physical-interaction clause, which speaks of glass and reflections and not of frames, between
  a text that contains framing or glass-reflection wording ("frame", "glass", "reflection")
  exactly where the scene prompt does and a text that contains it exactly where the negative
  prompt does; in particular the placement clause contains none, and the composed text
  contains "frame" only where the scene prompt or the negative prompt does. With a named frame
  style the composed text contains the style's name. With frame style "Auto" the composed
  text contains the word "Auto" exactly when the scene prompt or the negative prompt contains
  it.
\<close>

theorem composed_prompt_frame_cases:
  "(frameStyle s = Some Frame_None \<longrightarrow>
        (\<exists>before after. finalPrompt s = before @ physicalInteraction @ after
           \<and> (\<forall>w \<in> {''frame'', ''glass'', ''reflection''}.
                (includes_text before w \<longleftrightarrow> includes_text (prompt s) w)
              \<and> (includes_text after w \<longleftrightarrow> includes_text (negativePrompt s) w)))
      \<and> \<not> includes_text physicalInteraction ''frame''
      \<and> \<not> includes_text (frameContext s) ''frame''
      \<and> \<not> includes_text (frameContext s) ''glass''
      \<and> \<not> includes_text (frameContext s) ''reflection''
      \<and> includes_text (finalPrompt s) (frameContext s)
      \<and> (includes_text (finalPrompt s) ''frame'' \<longleftrightarrow>
           includes_text (prompt s) ''frame'' \<or> includes_text (negativePrompt s) ''frame'')
      \<and> includes_text (finalPrompt s) ''If there is glass, show subtle reflections'')
   \<and> (\<forall>f. frameStyle s = Some f \<and> f \<noteq> Frame_Auto \<and> f \<noteq> Frame_None \<longrightarrow>
         includes_text (finalPrompt s) (FrameStyle_text f))
   \<and> (frameStyle s = Some Frame_Auto \<longrightarrow>
        (includes_text (finalPrompt s) ''Auto'' \<longleftrightarrow>
           includes_text (prompt s) ''Auto'' \<or> includes_text (negativePrompt s) ''Auto''))"
proof -
  have placed: "includes_text (finalPrompt s) (frameContext s)"
    by (rule includes_finalPrompt0) (rule finalPrompt0_frameContext)
  have glass: "includes_text (finalPrompt s) ''If there is glass, show subtle reflections''"
    by (rule includes_finalPrompt0, rule includes_text_trans[OF physics_glass])
       (rule finalPrompt0_physics)
  have named: "includes_text (finalPrompt s) (FrameStyle_text f)"
    if "frameStyle s = Some f \<and> f \<noteq> Frame_Auto \<and> f \<noteq> Frame_None" for f
    using that includes_text_trans[OF frameContext_named placed] by blast
  have unframed: "\<exists>before after. finalPrompt s = before @ physicalInteraction @ after
           \<and> (\<forall>w \<in> {''frame'', ''glass'', ''reflection''}.
                (includes_text before w \<longleftrightarrow> includes_text (prompt s) w)
              \<and> (includes_text after w \<longleftrightarrow> includes_text (negativePrompt s) w))"
    if "frameStyle s = Some Frame_None"
    using that by (rule finalPrompt_around_physics)
  have none: "\<not> includes_text (frameContext s) ''frame''
      \<and> \<not> includes_text (frameContext s) ''glass''
      \<and> \<not> includes_text (frameContext s) ''reflection''
      \<and> includes_text (finalPrompt s) (frameContext s)
      \<and> (includes_text (finalPrompt s) ''frame'' \<longleftrightarrow>
           includes_text (prompt s) ''frame'' \<or> includes_text (negativePrompt s) ''frame'')
      \<and> includes_text (finalPrompt s) ''If there is glass, show subtle reflections''"
    if "frameStyle s = Some Frame_None"
    using frameContext_None[OF that] placed glass finalPrompt_frame[OF that] by blast
  have auto: "includes_text (finalPrompt s) ''Auto'' \<longleftrightarrow>
           includes_text (prompt s) ''Auto'' \<or> includes_text (negativePrompt s) ''Auto''"
    by (rule finalPrompt_Auto)
  show ?thesis
  proof (intro conjI impI allI)
    assume n: "frameStyle s = Some Frame_None"
    show "\<exists>before after. finalPrompt s = before @ physicalInteraction @ after
           \<and> (\<forall>w \<in> {''frame'', ''glass'', ''reflection''}.
                (includes_text before w \<longleftrightarrow> includes_text (prompt s) w)
              \<and> (includes_text after w \<longleftrightarrow> includes_text (negativePrompt s) w))"
      using n by (rule unframed)
    show "\<not> includes_text physicalInteraction ''frame''"
      by (rule physicalInteraction_words)
    show "\<not> includes_text (frameContext s) ''frame''"
      "\<not> includes_text (frameContext s) ''glass''"
      "\<not> includes_text (frameContext s) ''reflection''"
      "includes_text (finalPrompt s) (frameContext s)"
      "includes_text (finalPrompt s) ''frame'' \<longleftrightarrow>
           includes_text (prompt s) ''frame'' \<or> includes_text (negativePrompt s) ''frame''"
      "includes_text (finalPrompt s) ''If there is glass, show subtle reflections''"
      using none[OF n] by blast+
  next
    fix f assume "frameStyle s = Some f \<and> f \<noteq> Frame_Auto \<and> f \<noteq> Frame_None"
    then show "includes_text (finalPrompt s) (FrameStyle_text f)" by (rule named)
  next
    show "includes_text (finalPrompt s) ''Auto'' \<longleftrightarrow>
           includes_text (prompt s) ''Auto'' \<or> includes_text (negativePrompt s) ''Auto''"
      by (rule auto)
  qed
qed

text \<open>
  The three cases of claim C2 at the default settings, with frame style "None", "Sleek Black"
  and "Auto".
\<close>

theorem composed_prompt_frame_cases_witness:
  "frameStyle (DEFAULT_SETTINGS\<lparr>frameStyle := Some Frame_None\<rparr>) = Some Frame_None
   \<and> (\<exists>before after.
         finalPrompt (DEFAULT_SETTINGS\<lparr>frameStyle := Some Frame_None\<rparr>)
           = before @ physicalInteraction @ after
         \<and> (\<forall>w \<in> {''frame'', ''glass'', ''reflection''}.
               \<not> includes_text before w \<and> \<not> includes_text after w))
   \<and> \<not> includes_text (frameContext (DEFAULT_SETTINGS\<lparr>frameStyle := Some Frame_None\<rparr>)) ''frame''
   \<and> \<not> includes_text (finalPrompt (DEFAULT_SETTINGS\<lparr>frameStyle := Some Frame_None\<rparr>)) ''frame''
   \<and> frameStyle (DEFAULT_SETTINGS\<lparr>frameStyle := Some Sleek_Black\<rparr>) = Some Sleek_Black
   \<and> includes_text (finalPrompt (DEFAULT_SETTINGS\<lparr>frameStyle := Some Sleek_Black\<rparr>))
        ''Sleek Black''
   \<and> frameStyle DEFAULT_SETTINGS = Some Frame_Auto
   \<and> \<not> includes_text (finalPrompt DEFAULT_SETTINGS) ''Auto''"
proof -
  have p: "\<not> includes_text (prompt DEFAULT_SETTINGS) ''Auto''"
    "\<not> includes_text (prompt DEFAULT_SETTINGS) ''frame''"
    "\<not> includes_text (prompt DEFAULT_SETTINGS) ''glass''"
    "\<not> includes_text (prompt DEFAULT_SETTINGS) ''reflection''"
    by (simp_all add: DEFAULT_SETTINGS_def)
  have n: "\<not> includes_text (negativePrompt DEFAULT_SETTINGS) ''Auto''"
    "\<not> includes_text (negativePrompt DEFAULT_SETTINGS) ''frame''"
    "\<not> includes_text (negativePrompt DEFAULT_SETTINGS) ''glass''"
    "\<not> includes_text (negativePrompt DEFAULT_SETTINGS) ''reflection''"
    by (simp_all add: DEFAULT_SETTINGS_def)
  have f: "frameStyle DEFAULT_SETTINGS = Some Frame_Auto"
    by (simp add: DEFAULT_SETTINGS_def)
  show ?thesis
    using composed_prompt_frame_cases[of "DEFAULT_SETTINGS\<lparr>frameStyle := Some Frame_None\<rparr>"]
      composed_prompt_frame_cases[of "DEFAULT_SETTINGS\<lparr>frameStyle := Some Sleek_Black\<rparr>"]
      composed_prompt_frame_cases[of DEFAULT_SETTINGS] p n f
    by simp
qed

text \<open>
  Claim C2 as stated fails: the default settings with frame style "None" compose a text that
  speaks of glass and reflections, and the default settings (frame style "Auto") with the
  scene prompt "Auto repair shop wall" compose a text that contains the word "Auto".
\<close>

theorem composed_prompt_counterexample:
  "frameStyle (DEFAULT_SETTINGS\<lparr>frameStyle := Some Frame_None\<rparr>) = Some Frame_None
   \<and> includes_text (finalPrompt (DEFAULT_SETTINGS\<lparr>frameStyle := Some Frame_None\<rparr>)) ''glass''
   \<and> includes_text (finalPrompt (DEFAULT_SETTINGS\<lparr>frameStyle := Some Frame_None\<rparr>))
        ''reflections''
   \<and> frameStyle (DEFAULT_SETTINGS\<lparr>prompt := ''Auto repair shop wall''\<rparr>) = Some Frame_Auto
   \<and> includes_text (finalPrompt (DEFAULT_SETTINGS\<lparr>prompt := ''Auto repair shop wall''\<rparr>))
        ''Auto''"
proof -
  have g: "includes_text physicalInteraction ''glass''"
    "includes_text physicalInteraction ''reflections''"
    by (simp_all add: physicalInteraction_def)
  have "includes_text (finalPrompt s) ''glass''"
    "includes_text (finalPrompt s) ''reflections''" for s
    by (rule includes_finalPrompt0, rule includes_text_trans[OF g(1)], rule finalPrompt0_physics)
       (rule includes_finalPrompt0, rule includes_text_trans[OF g(2)], rule finalPrompt0_physics)
  moreover have "includes_text (finalPrompt (DEFAULT_SETTINGS\<lparr>prompt := ''Auto repair shop wall''\<rparr>))
        ''Auto''"
    unfolding finalPrompt_Auto by simp
  ultimately show ?thesis by (simp add: DEFAULT_SETTINGS_def)
qed

section \<open>Properties of the suggestion engine\<close>

lemma getApiKey_noKeys: "getApiKey noKeys = None"
  by (simp add: getApiKey_def getEnvApiKey_def normalizeApiKey_def noKeys_def)

lemma getApiKey_storedKeyOnly: "getApiKey storedKeyOnly = Some ''AIzaSyExample-key-0001''"
  by code_simp

text \<open>
  Claim C1, as the code has it. Without an API key \<open>analyzeImageForPrompts\<close> fails with
  the configuration error. With a key it never fails and returns at most 4 values: the fixed
  4 generic scene descriptions when the remote call fails (after \<open>retry\<close>) or when the body
  is not JSON; the first 4 elements of the parsed body when this is an array (none for an
  empty array, and an absent or empty body is read as \<open>[]\<close>); and the empty sequence
  when the body is JSON but not an array.
\<close>

theorem analyze_outcomes:
  "(getApiKey env = None \<longrightarrow>
      analyzeImageForPrompts JSON_parse remote env base64Image vibe = Inl apiKeyNotFound)
   \<and> (getApiKey env \<noteq> None \<longrightarrow>
        (\<exists>suggestions. analyzeImageForPrompts JSON_parse remote env base64Image vibe
            = Inr suggestions \<and> length suggestions \<le> 4)
      \<and> (\<forall>error. settled (retry (remote (analysisRequest base64Image vibe)) 3 2000)
                    = Rejected error \<longrightarrow>
            analyzeImageForPrompts JSON_parse remote env base64Image vibe = Inr analysisFallback)
      \<and> (\<forall>response. settled (retry (remote (analysisRequest base64Image vibe)) 3 2000)
                    = Resolved response \<longrightarrow>
            (JSON_parse (responseBody response) = None \<longrightarrow>
               analyzeImageForPrompts JSON_parse remote env base64Image vibe = Inr analysisFallback)
          \<and> (\<forall>elements. JSON_parse (responseBody response) = Some (JArray elements) \<longrightarrow>
               analyzeImageForPrompts JSON_parse remote env base64Image vibe
                 = Inr (take 4 elements))
          \<and> (\<forall>v. JSON_parse (responseBody response) = Some v
                  \<and> (\<forall>elements. v \<noteq> JArray elements) \<longrightarrow>
               analyzeImageForPrompts JSON_parse remote env base64Image vibe = Inr [])))
   \<and> length analysisFallback = 4"
proof -
  have fallback: "length analysisFallback = 4" by (simp add: analysisFallback_def)
  show ?thesis
  proof (cases "getApiKey env")
    case None
    then show ?thesis by (simp add: analyzeImageForPrompts_def fallback)
  next
    case (Some apiKey)
    show ?thesis
    proof (cases "settled (retry (remote (analysisRequest base64Image vibe)) 3 2000)")
      case (Rejected error)
      with Some show ?thesis by (simp add: analyzeImageForPrompts_def fallback)
    next
      case (Resolved response)
      show ?thesis
      proof (cases "JSON_parse (responseBody response)")
        case None
        with Some Resolved show ?thesis by (simp add: analyzeImageForPrompts_def fallback)
      next
        case parsed: (Some v)
        with Some Resolved show ?thesis
          by (cases v) (simp_all add: analyzeImageForPrompts_def fallback)
      qed
    qed
  qed
qed

text \<open>
  Claim C1 as stated fails twice: with no key configured the call fails with an error, and
  with a key and a response without text the call returns the empty sequence. \<open>JSON.parse\<close>
  is applied to the text \<open>[]\<close> only, which it reads as the empty array.
\<close>

theorem analyze_counterexample:
  "analyzeImageForPrompts (\<lambda>t. if t = ''[]'' then Some (JArray []) else None)
      (\<lambda>request c. Resolved \<lparr>responseText = None, candidates = None\<rparr>)
      noKeys ''data:image/jpeg;base64,AAAA'' Surprise_Me
     = Inl apiKeyNotFound
   \<and> analyzeImageForPrompts (\<lambda>t. if t = ''[]'' then Some (JArray []) else None)
      (\<lambda>request c. Resolved \<lparr>responseText = None, candidates = None\<rparr>)
      storedKeyOnly ''data:image/jpeg;base64,AAAA'' Surprise_Me
     = Inr []"
  by (simp add: analyzeImageForPrompts_def getApiKey_noKeys getApiKey_storedKeyOnly
      retry_always_resolved responseBody_def)

text \<open>
  The cases of claim C1 at concrete inputs: no key; a key and a remote call that always
  fails with a 503; a key and a body that is not JSON.
\<close>

theorem analyze_outcomes_witness:
  "getApiKey noKeys = None
   \<and> analyzeImageForPrompts (\<lambda>t. if t = ''[]'' then Some (JArray []) else None)
        (\<lambda>request c. Rejected (Error ''503 Service Unavailable''))
        noKeys ''data:image/jpeg;base64,AAAA'' Surprise_Me
       = Inl apiKeyNotFound
   \<and> getApiKey storedKeyOnly \<noteq> None
   \<and> settled (retry ((\<lambda>request c. Rejected (Error ''503 Service Unavailable''))
          (analysisRequest ''data:image/jpeg;base64,AAAA'' Surprise_Me)) 3 2000)
       = Rejected (Error ''503 Service Unavailable'')
   \<and> analyzeImageForPrompts (\<lambda>t. if t = ''[]'' then Some (JArray []) else None)
        (\<lambda>request c. Rejected (Error ''503 Service Unavailable''))
        storedKeyOnly ''data:image/jpeg;base64,AAAA'' Surprise_Me
       = Inr analysisFallback
   \<and> analyzeImageForPrompts (\<lambda>t. if t = ''[]'' then Some (JArray []) else None)
        (\<lambda>request c. Resolved \<lparr>responseText = Some ''Sorry, no ideas.'', candidates = None\<rparr>)
        storedKeyOnly ''data:image/jpeg;base64,AAAA'' Surprise_Me
       = Inr analysisFallback"
  using
    analyze_outcomes[of noKeys "\<lambda>t. if t = ''[]'' then Some (JArray []) else None"
      "\<lambda>request c. Rejected (Error ''503 Service Unavailable'')"
      "''data:image/jpeg;base64,AAAA''" Surprise_Me]
    analyze_outcomes[of storedKeyOnly "\<lambda>t. if t = ''[]'' then Some (JArray []) else None"
      "\<lambda>request c. Rejected (Error ''503 Service Unavailable'')"
      "''data:image/jpeg;base64,AAAA''" Surprise_Me]
    analyze_outcomes[of storedKeyOnly "\<lambda>t. if t = ''[]'' then Some (JArray []) else None"
      "\<lambda>request c. Resolved \<lparr>responseText = Some ''Sorry, no ideas.'', candidates = None\<rparr>"
      "''data:image/jpeg;base64,AAAA''" Surprise_Me]
  by (simp add: getApiKey_noKeys getApiKey_storedKeyOnly retry_always_rejected
      retry_always_resolved responseBody_def)

section \<open>Properties of the batch orchestrator\<close>

lemma batchJobs_nth:
  "i < length (editablePrompts st) \<Longrightarrow>
   batchJobs st ! i = batchSettings st i (editablePrompts st ! i)"
  by (simp add: batchJobs_def nth_enumerate_eq)

text \<open>
  Claim C8. With non-empty selection lists, the job at index \<open>i\<close> of a batch is given
  \<open>frames[i mod |frames|]\<close>, \<open>lighting[i mod |lighting|]\<close> and \<open>textures[i mod |textures|]\<close>;
  with 5 entries and 2 selected frame styles, the jobs 0, 2, 4 get the first style and the
  jobs 1, 3 the second.
\<close>

theorem round_robin_assignment:
  "(selectedFrames st \<noteq> [] \<and> selectedLighting st \<noteq> [] \<and> selectedTextures st \<noteq> [] \<longrightarrow>
      length (batchJobs st) = length (editablePrompts st)
      \<and> (\<forall>i < length (editablePrompts st).
            frameStyle (batchJobs st ! i)
              = Some (selectedFrames st ! (i mod length (selectedFrames st)))
          \<and> lighting (batchJobs st ! i)
              = Some (selectedLighting st ! (i mod length (selectedLighting st)))
          \<and> wallTexture (batchJobs st ! i)
              = Some (selectedTextures st ! (i mod length (selectedTextures st)))))
   \<and> (\<forall>f0 f1. selectedFrames st = [f0, f1] \<and> length (editablePrompts st) = 5 \<longrightarrow>
         map frameStyle (batchJobs st) = [Some f0, Some f1, Some f0, Some f1, Some f0])"
proof (intro conjI impI allI)
  show "length (batchJobs st) = length (editablePrompts st)"
    by (simp add: batchJobs_def)
next
  fix i
  assume sel: "selectedFrames st \<noteq> [] \<and> selectedLighting st \<noteq> [] \<and> selectedTextures st \<noteq> []"
    and i: "i < length (editablePrompts st)"
  show "frameStyle (batchJobs st ! i)
          = Some (selectedFrames st ! (i mod length (selectedFrames st)))"
    using sel by (simp add: batchJobs_nth[OF i] batchSettings_def roundRobin_def)
  show "lighting (batchJobs st ! i)
          = Some (selectedLighting st ! (i mod length (selectedLighting st)))"
    using sel by (simp add: batchJobs_nth[OF i] batchSettings_def roundRobin_def)
  show "wallTexture (batchJobs st ! i)
          = Some (selectedTextures st ! (i mod length (selectedTextures st)))"
    using sel by (simp add: batchJobs_nth[OF i] batchSettings_def roundRobin_def)
next
  fix f0 f1
  assume a: "selectedFrames st = [f0, f1] \<and> length (editablePrompts st) = 5"
  then obtain p0 p1 p2 p3 p4 where ps: "editablePrompts st = [p0, p1, p2, p3, p4]"
    by (auto simp: length_Suc_conv numeral_eq_Suc)
  show "map frameStyle (batchJobs st) = [Some f0, Some f1, Some f0, Some f1, Some f0]"
    using a by (simp add: batchJobs_def ps enumerate_simps batchSettings_def roundRobin_def mod_Suc)
qed

text \<open>Claim C8 at five entries with the frame styles Sleek Black and Natural Oak.\<close>

theorem round_robin_assignment_witness:
  "selectedFrames fivePrompts \<noteq> [] \<and> selectedLighting fivePrompts \<noteq> []
   \<and> selectedTextures fivePrompts \<noteq> []
   \<and> selectedFrames fivePrompts = [Sleek_Black, Natural_Oak]
   \<and> length (editablePrompts fivePrompts) = 5
   \<and> map frameStyle (batchJobs fivePrompts)
       = [Some Sleek_Black, Some Natural_Oak, Some Sleek_Black, Some Natural_Oak,
          Some Sleek_Black]
   \<and> lighting (batchJobs fivePrompts ! 3) = Some Lighting_Auto"
proof -
  have sel: "selectedFrames fivePrompts = [Sleek_Black, Natural_Oak]"
    "selectedLighting fivePrompts = [Lighting_Auto]"
    "selectedTextures fivePrompts = [Texture_Auto]"
    "length (editablePrompts fivePrompts) = 5"
    by (simp_all add: fivePrompts_def initialState_def)
  from round_robin_assignment[of fivePrompts] sel
  show ?thesis by simp
qed

text \<open>
  Claim C3, evaluated on the code: every job but the first awaits the same 2500 ms, so the
  jobs 1 and 2 of a batch of three both start 2500 ms after the batch.
\<close>

theorem stagger_delay_flat:
  "staggerDelay 0 = 0 \<and> staggerDelay (Suc i) = 2500
   \<and> batchSchedule (st\<lparr>editablePrompts := [p0, p1, p2]\<rparr>) = [0, 2500, 2500]"
  by (simp add: staggerDelay_def batchSchedule_def)

section \<open>Properties of the generation call\<close>

lemma retry_loop_rejected:
  "\<forall>c. \<exists>e. fn c = Rejected e \<Longrightarrow>
   \<exists>e. settled (retry_loop fn retries baseDelay i c ws) = Rejected e"
proof (induction fn retries baseDelay i c ws rule: retry_loop.induct)
  case (1 fn retries baseDelay i c ws)
  show ?case
  proof (cases "i < retries")
    case False
    then show ?thesis by (simp add: retry_loop.simps)
  next
    case True
    from "1.prems" obtain e where e: "fn c = Rejected e" by blast
    show ?thesis
    proof (cases "\<not> isTransient e \<or> i = retries - 1")
      case stop: True
      with True e show ?thesis by (subst retry_loop.simps) auto
    next
      case go: False
      have "retry_loop fn retries baseDelay i c ws
           = retry_loop fn retries baseDelay (i + 1) (Suc c) (ws @ [baseDelay * 2 ^ nat i])"
        using True e go by (subst retry_loop.simps) simp
      with "1.IH"[OF True e refl _ "1.prems"] go show ?thesis by simp
    qed
  qed
qed

lemma retry_rejected:
  "\<forall>c. \<exists>e. fn c = Rejected e \<Longrightarrow> \<exists>e. settled (retry fn retries baseDelay) = Rejected e"
  unfolding retry_def by (rule retry_loop_rejected)

lemma generateSlot_rejected:
  "\<forall>c. \<exists>e. remote request c = Rejected e \<Longrightarrow> generateSlot remote request = None"
  using retry_rejected[of "remote request" 3 2000] by (auto simp: generateSlot_def)

lemma generateMockup_rejected:
  assumes "\<forall>slot request c. \<exists>e. remote slot request c = Rejected e"
  shows "\<exists>error. generateMockup remote env base64Image s = Inl error"
proof (cases "getApiKey env")
  case None
  then show ?thesis by (simp add: generateMockup_def)
next
  case (Some apiKey)
  have "generateSlot (remote index) request = None" for index request
    using assms by (intro generateSlot_rejected) blast
  with Some show ?thesis by (simp add: generateMockup_def Let_def)
qed

lemma generateMockup_Inr:
  assumes "generateMockup remote env base64Image s = Inr images"
  shows "images \<noteq> [] \<and> length images \<le> count s"
proof -
  define results where "results =
    map (\<lambda>index. generateSlot (remote index) (generationRequest base64Image s)) [0..<count s]"
  define generated where "generated = map the (filter (\<lambda>img. img \<noteq> None) results)"
  have "length (filter (\<lambda>img. img \<noteq> None) results) \<le> length results"
    by (rule length_filter_le)
  then have le: "length generated \<le> count s"
    by (simp add: generated_def results_def)
  from assms obtain apiKey where key: "getApiKey env = Some apiKey"
    by (cases "getApiKey env") (simp_all add: generateMockup_def)
  have "generateMockup remote env base64Image s
      = (if length generated = 0
         then Inl (Error ''No images were generated. Please try a different prompt or image.'')
         else Inr generated)"
    unfolding generateMockup_def Let_def key generated_def results_def
    by (simp only: option.case)
  with assms have "images = generated \<and> generated \<noteq> []"
    by (cases "generated = []") simp_all
  with le show ?thesis by simp
qed

lemma generateMockup_single:
  assumes "generateMockup remote env base64Image s = Inr images" "count s = 1"
  shows "\<exists>img. images = [img]"
  using generateMockup_Inr[OF assms(1)] assms(2)
  by (cases images) auto

lemma generateMockup_resolved:
  assumes "getApiKey env = Some apiKey" "count s = 1"
    and "remote 0 (generationRequest base64Image s) 0 = Resolved response"
    and "responseImage response = Some url"
  shows "generateMockup remote env base64Image s = Inr [url]"
  using assms retry_always_resolved[of "remote 0 (generationRequest base64Image s)" response]
  by (simp add: generateMockup_def Let_def generateSlot_def)

lemma responseImage_imageResponse:
  "responseImage imageResponse = Some ''data:image/png;base64,iVBORw0KGgo=''"
  by (simp add: responseImage_def imageResponse_def)

lemma exampleWorld_ok:
  assumes "job \<notin> failing" "count s = 1"
  shows "generateMockup (generateContent (exampleWorld failing) job)
           (keys (exampleWorld failing)) base64Image s
         = Inr [''data:image/png;base64,iVBORw0KGgo='']"
  using assms
  by (intro generateMockup_resolved[where response = imageResponse
        and apiKey = "''AIzaSyExample-key-0001''"])
     (simp_all add: exampleWorld_def getApiKey_storedKeyOnly responseImage_imageResponse)

lemma exampleWorld_fails:
  assumes "job \<in> failing"
  shows "\<forall>slot request c. generateContent (exampleWorld failing) job slot request c
           = Rejected (Error ''503 Service Unavailable'')"
  using assms by (simp add: exampleWorld_def)

section \<open>Properties of the batch results\<close>

lemma count_batchSettings [simp]: "count (batchSettings st i p) = 1"
  by (simp add: batchSettings_def)

lemma batchJob_outcome:
  "batchJob world st base64Image i (editablePrompts st ! i) =
     (case jobOutcome world st base64Image i of
        Inl error \<Rightarrow> []
      | Inr images \<Rightarrow>
          [\<lparr>resultId = randomUUID world i 0,
            imageUrl = Some (hd images),
            resultPrompt = entryText (editablePrompts st ! i),
            createdAt = dateNow world i 0,
            isHighRes = Some (imageSize (settings st) = Size_4K)\<rparr>])"
proof (cases "jobOutcome world st base64Image i")
  case (Inl error)
  then show ?thesis by (simp add: batchJob_def jobOutcome_def)
next
  case (Inr images)
  then obtain img where "images = [img]"
    using generateMockup_single[of "generateContent world i" "keys world" base64Image
        "batchSettings st i (editablePrompts st ! i)" images]
    by (auto simp: jobOutcome_def)
  with Inr show ?thesis by (simp add: batchJob_def jobOutcome_def enumerate_simps)
qed

lemma map_enumerate_upt:
  "map f (enumerate 0 xs) = map (\<lambda>i. f (i, xs ! i)) [0..<length xs]"
  by (rule nth_equalityI) (simp_all add: nth_enumerate_eq)

lemma runBatch_jobs:
  "runBatch world st base64Image =
     (let flatResults =
        concat (map (\<lambda>i. batchJob world st base64Image i (editablePrompts st ! i))
                  [0..<length (editablePrompts st)])
      in if flatResults = [] then Inl batchEmpty else Inr flatResults)"
  by (simp add: runBatch_def map_enumerate_upt Let_def)

lemma concat_map_if:
  "concat (map (\<lambda>i. if P i then [h i] else []) xs) = map h (filter P xs)"
  by (induction xs) simp_all

lemma filter_neq_upt:
  assumes "j < n"
  shows "filter (\<lambda>i. i \<noteq> j) [0..<n] = [0..<j] @ [Suc j..<n]"
proof -
  have "[0..<n] = [0..<j] @ [j] @ [Suc j..<n]"
    using assms by (metis Suc_leI append_Cons append_Nil le0 upt_add_eq_append upt_conv_Cons
        le_add_diff_inverse less_imp_le_nat)
  moreover have "filter (\<lambda>i. i \<noteq> j) [0..<j] = [0..<j]" by (simp add: filter_id_conv)
  moreover have "filter (\<lambda>i. i \<noteq> j) [Suc j..<n] = [Suc j..<n]" by (simp add: filter_id_conv)
  ultimately show ?thesis by simp
qed

lemma handleGenerateBatch_run:
  assumes "sourceImage st = Some base64Image" "base64Image \<noteq> []" "editablePrompts st \<noteq> []"
  shows "handleGenerateBatch world st =
     (case runBatch world st base64Image of
        Inr flatResults \<Rightarrow>
          st\<lparr>results := flatResults @ results st, isGenerating := False,
             loadingMessage := []\<rparr>
      | Inl error \<Rightarrow>
          st\<lparr>alerts := alerts st @ [''Batch generation encountered errors.''],
             isGenerating := False, loadingMessage := []\<rparr>)"
  using assms by (simp add: handleGenerateBatch_def)

text \<open>The result a successful job contributes.\<close>

lemma batch_flat:
  "concat (map (\<lambda>i. batchJob world st base64Image i (editablePrompts st ! i)) xs)
     = map (\<lambda>i. \<lparr>resultId = randomUUID world i 0,
                  imageUrl = Some (hd (projr (jobOutcome world st base64Image i))),
                  resultPrompt = entryText (editablePrompts st ! i),
                  createdAt = dateNow world i 0,
                  isHighRes = Some (imageSize (settings st) = Size_4K)\<rparr>)
         (filter (\<lambda>i. \<not> isl (jobOutcome world st base64Image i)) xs)"
proof -
  have "batchJob world st base64Image i (editablePrompts st ! i)
      = (if \<not> isl (jobOutcome world st base64Image i)
         then [\<lparr>resultId = randomUUID world i 0,
                 imageUrl = Some (hd (projr (jobOutcome world st base64Image i))),
                 resultPrompt = entryText (editablePrompts st ! i),
                 createdAt = dateNow world i 0,
                 isHighRes = Some (imageSize (settings st) = Size_4K)\<rparr>]
         else [])" for i
    unfolding batchJob_outcome by (cases "jobOutcome world st base64Image i") simp_all
  then show ?thesis by (simp only: concat_map_if)
qed

lemma batchJob_failed:
  assumes "\<exists>error. jobOutcome world st base64Image i = Inl error"
  shows "batchJob world st base64Image i (editablePrompts st ! i) = []"
  using assms unfolding batchJob_outcome by auto

lemma runBatch_all_failed:
  assumes "\<forall>i < length (editablePrompts st). \<exists>error. jobOutcome world st base64Image i = Inl error"
  shows "runBatch world st base64Image = Inl batchEmpty"
proof -
  have "concat (map (\<lambda>i. batchJob world st base64Image i (editablePrompts st ! i))
          [0..<length (editablePrompts st)]) = []"
    using assms by (simp add: batchJob_failed)
  then show ?thesis by (simp add: runBatch_jobs)
qed

lemma runBatch_some_succeeded:
  assumes "i < length (editablePrompts st)" "jobOutcome world st base64Image i = Inr images"
  shows "runBatch world st base64Image
     = Inr (concat (map (\<lambda>i. batchJob world st base64Image i (editablePrompts st ! i))
              [0..<length (editablePrompts st)]))"
proof -
  have "batchJob world st base64Image i (editablePrompts st ! i) \<noteq> []"
    unfolding batchJob_outcome using assms(2) by simp
  then have "concat (map (\<lambda>i. batchJob world st base64Image i (editablePrompts st ! i))
          [0..<length (editablePrompts st)]) \<noteq> []"
    using assms(1) by (simp add: Bex_def) (metis atLeastLessThan_iff le0)
  then show ?thesis by (simp add: runBatch_jobs Let_def)
qed

text \<open>
  Claim C5, as the code has it. In a batch of \<open>N \<ge> 2\<close> entries in which the remote call
  of exactly one job \<open>j\<close> always fails and every other job succeeds, the batch yields
  exactly \<open>N - 1\<close> results, those of the jobs other than \<open>j\<close> in job-index order, puts them
  in front of the result store and reports no error.
\<close>

theorem batch_one_failure:
  assumes img: "sourceImage st = Some base64Image" "base64Image \<noteq> []"
    and n: "2 \<le> length (editablePrompts st)"
    and j: "j < length (editablePrompts st)"
    and fails: "\<forall>slot request c. \<exists>error.
                  generateContent world j slot request c = Rejected error"
    and others: "\<forall>i < length (editablePrompts st). i \<noteq> j \<longrightarrow>
                  (\<exists>images. jobOutcome world st base64Image i = Inr images)"
  shows "\<exists>flatResults.
      runBatch world st base64Image = Inr flatResults
    \<and> length flatResults = length (editablePrompts st) - 1
    \<and> map resultId flatResults
        = map (\<lambda>i. randomUUID world i 0) ([0..<j] @ [Suc j..<length (editablePrompts st)])
    \<and> map resultPrompt flatResults
        = map (\<lambda>i. entryText (editablePrompts st ! i))
            ([0..<j] @ [Suc j..<length (editablePrompts st)])
    \<and> results (handleGenerateBatch world st) = flatResults @ results st
    \<and> alerts (handleGenerateBatch world st) = alerts st"
proof -
  let ?n = "length (editablePrompts st)"
  let ?ok = "\<lambda>i. \<not> isl (jobOutcome world st base64Image i)"
  let ?flat = "concat (map (\<lambda>i. batchJob world st base64Image i (editablePrompts st ! i))
                 [0..<?n])"
  have failed: "isl (jobOutcome world st base64Image j)"
    using generateMockup_rejected[of "generateContent world j" "keys world" base64Image
        "batchSettings st j (editablePrompts st ! j)"] fails
    by (auto simp: jobOutcome_def)
  have "?ok i \<longleftrightarrow> i \<noteq> j" if "i \<in> set [0..<?n]" for i
    using that others failed by auto
  then have "filter ?ok [0..<?n] = filter (\<lambda>i. i \<noteq> j) [0..<?n]"
    by (intro filter_cong) auto
  then have ok: "filter ?ok [0..<?n] = [0..<j] @ [Suc j..<?n]"
    using filter_neq_upt[OF j] by simp
  have flat: "?flat = map (\<lambda>i. \<lparr>resultId = randomUUID world i 0,
                  imageUrl = Some (hd (projr (jobOutcome world st base64Image i))),
                  resultPrompt = entryText (editablePrompts st ! i),
                  createdAt = dateNow world i 0,
                  isHighRes = Some (imageSize (settings st) = Size_4K)\<rparr>)
         ([0..<j] @ [Suc j..<?n])"
    unfolding batch_flat ok ..
  have len: "length ?flat = ?n - 1"
    unfolding flat using j by simp
  have ne: "?flat \<noteq> []"
  proof
    assume "?flat = []"
    then have "length ?flat = 0" by (simp only: list.size)
    with len n show False by simp
  qed
  have run: "runBatch world st base64Image = Inr ?flat"
    using ne by (simp add: runBatch_jobs Let_def)
  have prompts: "editablePrompts st \<noteq> []" using n by auto
  have ids: "map resultId ?flat = map (\<lambda>i. randomUUID world i 0) ([0..<j] @ [Suc j..<?n])"
    unfolding flat by (simp add: comp_def)
  have texts: "map resultPrompt ?flat
      = map (\<lambda>i. entryText (editablePrompts st ! i)) ([0..<j] @ [Suc j..<?n])"
    unfolding flat by (simp add: comp_def)
  have "results (handleGenerateBatch world st) = ?flat @ results st"
    "alerts (handleGenerateBatch world st) = alerts st"
    by (simp_all add: handleGenerateBatch_run[OF img prompts] run)
  with run len ids texts show ?thesis by blast
qed

text \<open>
  Claim C5 as stated fails for a batch of one entry: when its only job fails, the batch
  raises the batch-empty error, which the handler reports, instead of returning no results.
\<close>

theorem batch_one_failure_counterexample:
  "sourceImage onePrompt = Some ''data:image/jpeg;base64,AAAA''
   \<and> length (editablePrompts onePrompt) = 1
   \<and> (\<forall>slot request c. generateContent (exampleWorld {0}) 0 slot request c
          = Rejected (Error ''503 Service Unavailable''))
   \<and> runBatch (exampleWorld {0}) onePrompt ''data:image/jpeg;base64,AAAA'' = Inl batchEmpty
   \<and> results (handleGenerateBatch (exampleWorld {0}) onePrompt) = []
   \<and> alerts (handleGenerateBatch (exampleWorld {0}) onePrompt)
       = [''Batch generation encountered errors.'']"
proof -
  have st: "sourceImage onePrompt = Some ''data:image/jpeg;base64,AAAA''"
    "length (editablePrompts onePrompt) = 1" "editablePrompts onePrompt \<noteq> []"
    "results onePrompt = []" "alerts onePrompt = []"
    by (simp_all add: onePrompt_def initialState_def initialPrompts_def)
  have fails: "\<forall>slot request c. generateContent (exampleWorld {0}) 0 slot request c
          = Rejected (Error ''503 Service Unavailable'')"
    by (rule exampleWorld_fails) simp
  then have "\<exists>error. jobOutcome (exampleWorld {0}) onePrompt ''data:image/jpeg;base64,AAAA'' 0
      = Inl error"
    unfolding jobOutcome_def by (intro generateMockup_rejected) blast
  then have run: "runBatch (exampleWorld {0}) onePrompt ''data:image/jpeg;base64,AAAA''
      = Inl batchEmpty"
    by (intro runBatch_all_failed) (simp add: st)
  have "handleGenerateBatch (exampleWorld {0}) onePrompt
      = onePrompt\<lparr>alerts := alerts onePrompt @ [''Batch generation encountered errors.''],
             isGenerating := False, loadingMessage := []\<rparr>"
    using handleGenerateBatch_run[OF st(1) _ st(3), of "exampleWorld {0}"] run by simp
  with st fails run show ?thesis by simp
qed

text \<open>Claim C5 at five entries, the job at index 1 failing.\<close>

theorem batch_one_failure_witness:
  "sourceImage fivePrompts = Some ''data:image/jpeg;base64,AAAA''
   \<and> (2 :: nat) \<le> length (editablePrompts fivePrompts)
   \<and> (\<forall>slot request c. generateContent (exampleWorld {1}) 1 slot request c
          = Rejected (Error ''503 Service Unavailable''))
   \<and> map resultId (results (handleGenerateBatch (exampleWorld {1}) fivePrompts))
       = [''uuid--'', ''uuid-jj-'', ''uuid-jjj-'', ''uuid-jjjj-'']
   \<and> map resultPrompt (results (handleGenerateBatch (exampleWorld {1}) fivePrompts))
       = [''A gallery wall'', ''A cafe'', ''A studio'', ''A hallway'']
   \<and> alerts (handleGenerateBatch (exampleWorld {1}) fivePrompts) = []"
proof -
  let ?img = "''data:image/jpeg;base64,AAAA''"
  have st: "sourceImage fivePrompts = Some ?img" "?img \<noteq> []"
    "length (editablePrompts fivePrompts) = 5"
    "results fivePrompts = []" "alerts fivePrompts = []"
    by (simp_all add: fivePrompts_def initialState_def)
  have n: "2 \<le> length (editablePrompts fivePrompts)" "1 < length (editablePrompts fivePrompts)"
    using st(3) by simp_all
  have fails: "\<forall>slot request c. \<exists>error.
      generateContent (exampleWorld {1}) 1 slot request c = Rejected error"
    using exampleWorld_fails[of 1 "{1}"] by simp
  have others: "\<forall>i < length (editablePrompts fivePrompts). i \<noteq> 1 \<longrightarrow>
      (\<exists>images. jobOutcome (exampleWorld {1}) fivePrompts ?img i = Inr images)"
    by (simp add: jobOutcome_def exampleWorld_ok)
  have idx: "[0..<1] @ [Suc 1..<5] = [0, 2, 3, 4]"
    by (simp add: upt_rec)
  from batch_one_failure[OF st(1,2) n fails others]
  obtain flatResults where
    "map resultId flatResults
        = map (\<lambda>i. randomUUID (exampleWorld {1}) i 0) ([0..<1] @ [Suc 1..<5])"
    "map resultPrompt flatResults
        = map (\<lambda>i. entryText (editablePrompts fivePrompts ! i)) ([0..<1] @ [Suc 1..<5])"
    "results (handleGenerateBatch (exampleWorld {1}) fivePrompts) = flatResults @ results fivePrompts"
    "alerts (handleGenerateBatch (exampleWorld {1}) fivePrompts) = alerts fivePrompts"
    unfolding st(3) by blast
  then have
    "map resultId (results (handleGenerateBatch (exampleWorld {1}) fivePrompts))
       = [''uuid--'', ''uuid-jj-'', ''uuid-jjj-'', ''uuid-jjjj-'']"
    "map resultPrompt (results (handleGenerateBatch (exampleWorld {1}) fivePrompts))
       = [''A gallery wall'', ''A cafe'', ''A studio'', ''A hallway'']"
    "alerts (handleGenerateBatch (exampleWorld {1}) fivePrompts) = []"
    unfolding idx st(4,5)
    by (simp_all add: exampleWorld_def fivePrompts_def initialState_def numeral_eq_Suc)
  with st(1) n(1) exampleWorld_fails[of 1 "{1}"] show ?thesis by simp
qed

text \<open>
  Claim C6. For a batch with an image and at least one entry: when every job fails,
  the batch raises the batch-empty error ("Batch generation yielded no results."), which the
  handler reports, and the result store is unchanged; when some job succeeds, the batch
  returns the concatenation of the per-job results in job-index order and the handler puts it
  in front of the result store. A failed job contributes nothing and a successful job one
  result, with the identifier \<open>crypto.randomUUID()\<close> returned for it, the time \<open>Date.now()\<close>
  returned for it, the entry's prompt, and the high-resolution flag set exactly when the base
  settings have the 4K tier. If the identifiers drawn are pairwise distinct and none is in the
  store, the identifiers in the store stay pairwise distinct.
\<close>

theorem batch_outcome:
  assumes "sourceImage st = Some base64Image" "base64Image \<noteq> []" "editablePrompts st \<noteq> []"
  shows
    "((\<forall>i < length (editablePrompts st). \<exists>error. jobOutcome world st base64Image i = Inl error)
        \<longrightarrow> runBatch world st base64Image = Inl batchEmpty
          \<and> toString batchEmpty = ''Error: Batch generation yielded no results.''
          \<and> results (handleGenerateBatch world st) = results st
          \<and> alerts (handleGenerateBatch world st)
              = alerts st @ [''Batch generation encountered errors.''])
     \<and> ((\<exists>i < length (editablePrompts st). \<exists>images.
            jobOutcome world st base64Image i = Inr images)
        \<longrightarrow> runBatch world st base64Image
              = Inr (concat (map (\<lambda>i. batchJob world st base64Image i (editablePrompts st ! i))
                       [0..<length (editablePrompts st)]))
          \<and> results (handleGenerateBatch world st)
              = concat (map (\<lambda>i. batchJob world st base64Image i (editablePrompts st ! i))
                  [0..<length (editablePrompts st)]) @ results st
          \<and> alerts (handleGenerateBatch world st) = alerts st)
     \<and> (\<forall>i. batchJob world st base64Image i (editablePrompts st ! i)
            = (case jobOutcome world st base64Image i of
                 Inl error \<Rightarrow> []
               | Inr images \<Rightarrow>
                   [\<lparr>resultId = randomUUID world i 0,
                     imageUrl = Some (hd images),
                     resultPrompt = entryText (editablePrompts st ! i),
                     createdAt = dateNow world i 0,
                     isHighRes = Some (imageSize (settings st) = Size_4K)\<rparr>]))
     \<and> ((\<forall>i i'. randomUUID world i 0 = randomUUID world i' 0 \<longrightarrow> i = i')
          \<and> (\<forall>i. randomUUID world i 0 \<notin> resultId ` set (results st))
          \<and> distinct (map resultId (results st))
        \<longrightarrow> distinct (map resultId (results (handleGenerateBatch world st))))"
proof -
  let ?n = "length (editablePrompts st)"
  let ?flat = "concat (map (\<lambda>i. batchJob world st base64Image i (editablePrompts st ! i))
                 [0..<?n])"
  note handler = handleGenerateBatch_run[OF assms, of world]
  have empty: "runBatch world st base64Image = Inl batchEmpty
          \<and> toString batchEmpty = ''Error: Batch generation yielded no results.''
          \<and> results (handleGenerateBatch world st) = results st
          \<and> alerts (handleGenerateBatch world st)
              = alerts st @ [''Batch generation encountered errors.'']"
    if "\<forall>i < ?n. \<exists>error. jobOutcome world st base64Image i = Inl error"
    using runBatch_all_failed[OF that] by (simp add: handler batchEmpty_def Error_def)
  have some: "runBatch world st base64Image = Inr ?flat
          \<and> results (handleGenerateBatch world st) = ?flat @ results st
          \<and> alerts (handleGenerateBatch world st) = alerts st"
    if "\<exists>i < ?n. \<exists>images. jobOutcome world st base64Image i = Inr images"
  proof -
    from that obtain i images where "i < ?n" "jobOutcome world st base64Image i = Inr images"
      by blast
    from runBatch_some_succeeded[OF this] show ?thesis by (simp add: handler)
  qed
  have fresh: "distinct (map resultId (results (handleGenerateBatch world st)))"
    if inj: "\<forall>i i'. randomUUID world i 0 = randomUUID world i' 0 \<longrightarrow> i = i'"
      and new: "\<forall>i. randomUUID world i 0 \<notin> resultId ` set (results st)"
      and old: "distinct (map resultId (results st))"
  proof (cases "runBatch world st base64Image")
    case (Inl error)
    then show ?thesis using old by (simp add: handler)
  next
    case (Inr flatResults)
    then have flat: "flatResults = ?flat"
      by (simp add: runBatch_jobs Let_def split: if_splits)
    have ids: "map resultId ?flat = map (\<lambda>i. randomUUID world i 0)
        (filter (\<lambda>i. \<not> isl (jobOutcome world st base64Image i)) [0..<?n])"
      unfolding batch_flat by (simp add: comp_def)
    have "inj_on (\<lambda>i. randomUUID world i 0) A" for A
      using inj by (auto simp: inj_on_def)
    then have d: "distinct (map resultId ?flat)"
      unfolding ids by (simp add: distinct_map)
    have "set (map resultId ?flat) \<inter> set (map resultId (results st)) = {}"
      unfolding ids using new by auto
    with d old show ?thesis
      using Inr flat by (simp add: handler)
  qed
  show ?thesis
    using empty some fresh batchJob_outcome[of world st base64Image]
    by (intro conjI impI allI) blast+
qed

lemma exampleWorld_uuid_inj:
  "\<forall>i i'. randomUUID (exampleWorld failing) i 0 = randomUUID (exampleWorld failing) i' 0
      \<longrightarrow> i = i'"
  by (auto simp: exampleWorld_def dest: arg_cong[where f = length])

text \<open>
  Claim C6 at five entries: with every job failing, and with the jobs 0 and 2 failing.
\<close>

theorem batch_outcome_witness:
  "sourceImage fivePrompts = Some ''data:image/jpeg;base64,AAAA''
   \<and> editablePrompts fivePrompts \<noteq> []
   \<and> runBatch (exampleWorld UNIV) fivePrompts ''data:image/jpeg;base64,AAAA'' = Inl batchEmpty
   \<and> results (handleGenerateBatch (exampleWorld UNIV) fivePrompts) = []
   \<and> alerts (handleGenerateBatch (exampleWorld UNIV) fivePrompts)
       = [''Batch generation encountered errors.'']
   \<and> results (handleGenerateBatch (exampleWorld {0, 2}) fivePrompts)
       = [\<lparr>resultId = ''uuid-j-'', imageUrl = Some ''data:image/png;base64,iVBORw0KGgo='',
           resultPrompt = ''A loft'', createdAt = 1700000000001, isHighRes = Some False\<rparr>,
          \<lparr>resultId = ''uuid-jjj-'', imageUrl = Some ''data:image/png;base64,iVBORw0KGgo='',
           resultPrompt = ''A studio'', createdAt = 1700000000003, isHighRes = Some False\<rparr>,
          \<lparr>resultId = ''uuid-jjjj-'', imageUrl = Some ''data:image/png;base64,iVBORw0KGgo='',
           resultPrompt = ''A hallway'', createdAt = 1700000000004, isHighRes = Some False\<rparr>]
   \<and> distinct (map resultId (results (handleGenerateBatch (exampleWorld {0, 2}) fivePrompts)))"
proof -
  let ?img = "''data:image/jpeg;base64,AAAA''"
  have st: "sourceImage fivePrompts = Some ?img" "?img \<noteq> []" "editablePrompts fivePrompts \<noteq> []"
    by (simp_all add: fivePrompts_def initialState_def)
  have n: "length (editablePrompts fivePrompts) = 5"
    and store: "results fivePrompts = []" "alerts fivePrompts = []"
    and size: "imageSize (settings fivePrompts) = Size_1K"
    by (simp_all add: fivePrompts_def initialState_def DEFAULT_SETTINGS_def)
  have failing: "\<exists>error. jobOutcome (exampleWorld failing) fivePrompts ?img i = Inl error"
    if "i \<in> failing" for i failing
    unfolding jobOutcome_def using exampleWorld_fails[OF that]
    by (intro generateMockup_rejected) blast
  have ok: "jobOutcome (exampleWorld failing) fivePrompts ?img i
      = Inr [''data:image/png;base64,iVBORw0KGgo='']" if "i \<notin> failing" for i failing
    unfolding jobOutcome_def using that by (simp add: exampleWorld_ok)
  have all_fail: "\<forall>i < length (editablePrompts fivePrompts).
      \<exists>error. jobOutcome (exampleWorld UNIV) fivePrompts ?img i = Inl error"
    using failing[of _ UNIV] by simp
  have one_ok: "\<exists>i < length (editablePrompts fivePrompts). \<exists>images.
      jobOutcome (exampleWorld {0, 2}) fivePrompts ?img i = Inr images"
    using ok[of 1 "{0, 2}"] n by (intro exI[of _ 1]) simp
  note empty = batch_outcome[OF st, of "exampleWorld UNIV", THEN conjunct1, THEN mp,
      OF all_fail]
  note full = batch_outcome[OF st, of "exampleWorld {0, 2}"]
  note some = full[THEN conjunct2, THEN conjunct1, THEN mp, OF one_ok]
  note job = full[THEN conjunct2, THEN conjunct2, THEN conjunct1, THEN spec]
  note fresh = full[THEN conjunct2, THEN conjunct2, THEN conjunct2, THEN mp]
  have jobs: "batchJob (exampleWorld {0, 2}) fivePrompts ?img 0 (editablePrompts fivePrompts ! 0) = []"
    "batchJob (exampleWorld {0, 2}) fivePrompts ?img 2 (editablePrompts fivePrompts ! 2) = []"
    using failing[of 0 "{0, 2}"] failing[of 2 "{0, 2}"] by (auto simp: job)
  have succ: "batchJob (exampleWorld {0, 2}) fivePrompts ?img i (editablePrompts fivePrompts ! i)
     = [\<lparr>resultId = randomUUID (exampleWorld {0, 2}) i 0,
         imageUrl = Some ''data:image/png;base64,iVBORw0KGgo='',
         resultPrompt = entryText (editablePrompts fivePrompts ! i),
         createdAt = dateNow (exampleWorld {0, 2}) i 0,
         isHighRes = Some False\<rparr>]" if "i \<notin> {0, 2}" for i
    using ok[OF that] by (simp add: job size)
  have idx: "[0..<5] = [0, 1, 2, 3, 4]" by (simp add: upt_rec)
  have res: "results (handleGenerateBatch (exampleWorld {0, 2}) fivePrompts)
       = [\<lparr>resultId = ''uuid-j-'', imageUrl = Some ''data:image/png;base64,iVBORw0KGgo='',
           resultPrompt = ''A loft'', createdAt = 1700000000001, isHighRes = Some False\<rparr>,
          \<lparr>resultId = ''uuid-jjj-'', imageUrl = Some ''data:image/png;base64,iVBORw0KGgo='',
           resultPrompt = ''A studio'', createdAt = 1700000000003, isHighRes = Some False\<rparr>,
          \<lparr>resultId = ''uuid-jjjj-'', imageUrl = Some ''data:image/png;base64,iVBORw0KGgo='',
           resultPrompt = ''A hallway'', createdAt = 1700000000004, isHighRes = Some False\<rparr>]"
    using some jobs succ[of 1] succ[of 3] succ[of 4]
    unfolding n idx store
    by (simp add: exampleWorld_def fivePrompts_def initialState_def numeral_eq_Suc)
  have "distinct (map resultId (results (handleGenerateBatch (exampleWorld {0, 2}) fivePrompts)))"
    by (rule fresh) (simp add: exampleWorld_uuid_inj store)
  with st(1,3) empty res show ?thesis by (simp add: store)
qed

section \<open>Properties of the editable prompt list\<close>

lemma ids_updatePrompt [simp]: "map entryId (updatePrompt ident newText prev) = map entryId prev"
  by (induction prev) (simp_all add: updatePrompt_def)

lemma ids_regenerateStarted [simp]:
  "map entryId (regenerateStarted ident prev) = map entryId prev"
  by (induction prev) (simp_all add: regenerateStarted_def)

lemma ids_regenerateFinished [simp]:
  "map entryId (regenerateFinished ident newText prev) = map entryId prev"
  by (induction prev) (simp_all add: regenerateFinished_def)

lemma ids_regenerateFailed [simp]:
  "map entryId (regenerateFailed ident prev) = map entryId prev"
  by (induction prev) (simp_all add: regenerateFailed_def)










text \<open>
  Why the removals have to be issued from a render of the current list: two removals issued
  from one render of a list of two entries both pass the guard, and leave no entry.
\<close>

lemma removals_from_one_render:
  "currentPrompts (promptRun exampleUUIDs
      [AddEmptyPrompt, Render, RemovePrompt ''1'', RemovePrompt ''uuid-'']) = []"
  by (simp add: promptRun_def initialPromptState_def initialPrompts_def addEmptyPrompt_def
      removePrompt_def exampleUUIDs_def)



section \<open>Properties of the upscale\<close>

text \<open>
  Claim C7. For a result \<open>R\<close> of the store (Draft or not), a successful upscale puts
  in front of the store a new result with the prompt of \<open>R\<close>, the high-resolution flag, and
  the identifier \<open>crypto.randomUUID()\<close> returned, which differs from that of \<open>R\<close> provided it
  is not an identifier of the store; the request is built with the prompt of \<open>R\<close>, the 4K
  tier, and frame, lighting and texture "Auto"; and the store still holds \<open>R\<close>, all former
  results following the new one unchanged.
\<close>

theorem upscale_result:
  assumes "sourceImage st = Some base64Image" "base64Image \<noteq> []"
    and "generateMockup (generateContent world 0) (keys world) base64Image
           (upscaleSettings (settings st) R) = Inr images"
    and "R \<in> set (results st)"
    and "randomUUID world 0 0 \<notin> resultId ` set (results st)"
  shows "\<exists>newResult.
       results (handleUpscale world st R) = newResult # results st
     \<and> resultPrompt newResult = resultPrompt R
     \<and> resultId newResult = randomUUID world 0 0
     \<and> resultId newResult \<noteq> resultId R
     \<and> isHighRes newResult = Some True
     \<and> createdAt newResult = dateNow world 0 0
     \<and> imageUrl newResult = Some (hd images)
     \<and> prompt (upscaleSettings (settings st) R) = resultPrompt R
     \<and> imageSize (upscaleSettings (settings st) R) = Size_4K
     \<and> count (upscaleSettings (settings st) R) = 1
     \<and> frameStyle (upscaleSettings (settings st) R) = Some Frame_Auto
     \<and> lighting (upscaleSettings (settings st) R) = Some Lighting_Auto
     \<and> wallTexture (upscaleSettings (settings st) R) = Some Texture_Auto
     \<and> R \<in> set (results (handleUpscale world st R))
     \<and> alerts (handleUpscale world st R) = alerts st
     \<and> upscalingId (handleUpscale world st R) = None"
proof -
  let ?new = "\<lparr>resultId = randomUUID world 0 0,
                imageUrl = Some (hd images),
                resultPrompt = resultPrompt R,
                createdAt = dateNow world 0 0,
                isHighRes = Some True\<rparr>"
  have one: "count (upscaleSettings (settings st) R) = 1"
    by (simp add: upscaleSettings_def)
  from generateMockup_single[OF assms(3) one] obtain img where images: "images = [img]" ..
  have run: "handleUpscale world st R
      = st\<lparr>results := ?new # results st, upscalingId := None\<rparr>"
    using assms(1,2,3) images by (simp add: handleUpscale_def)
  have differ: "randomUUID world 0 0 \<noteq> resultId R"
    using assms(4,5) by auto
  show ?thesis
    by (rule exI[of _ ?new]) (use assms(4) differ in \<open>simp add: run upscaleSettings_def\<close>)
qed

text \<open>Claim C7 at a store that holds one Draft result.\<close>

theorem upscale_result_witness:
  "sourceImage withDraft = Some ''data:image/jpeg;base64,AAAA''
   \<and> draftResult \<in> set (results withDraft)
   \<and> isHighRes draftResult = Some False
   \<and> generateMockup (generateContent (exampleWorld {}) 0) (keys (exampleWorld {}))
        ''data:image/jpeg;base64,AAAA'' (upscaleSettings (settings withDraft) draftResult)
       = Inr [''data:image/png;base64,iVBORw0KGgo='']
   \<and> results (handleUpscale (exampleWorld {}) withDraft draftResult)
       = [\<lparr>resultId = ''uuid--'', imageUrl = Some ''data:image/png;base64,iVBORw0KGgo='',
           resultPrompt = ''A gallery wall'', createdAt = 1700000000000,
           isHighRes = Some True\<rparr>,
          draftResult]"
proof -
  let ?img = "''data:image/jpeg;base64,AAAA''"
  have st: "sourceImage withDraft = Some ?img" "?img \<noteq> []"
    "results withDraft = [draftResult]"
    by (simp_all add: withDraft_def onePrompt_def initialState_def)
  have gen: "generateMockup (generateContent (exampleWorld {}) 0) (keys (exampleWorld {}))
        ?img (upscaleSettings (settings withDraft) draftResult)
       = Inr [''data:image/png;base64,iVBORw0KGgo='']"
    by (rule exampleWorld_ok) (simp_all add: upscaleSettings_def)
  have member: "draftResult \<in> set (results withDraft)" by (simp add: st)
  have new: "randomUUID (exampleWorld {}) 0 0 \<notin> resultId ` set (results withDraft)"
    by (simp add: st exampleWorld_def draftResult_def)
  from upscale_result[OF st(1,2) gen member new]
  obtain newResult where
    "results (handleUpscale (exampleWorld {}) withDraft draftResult)
       = newResult # results withDraft"
    "resultPrompt newResult = resultPrompt draftResult"
    "resultId newResult = randomUUID (exampleWorld {}) 0 0"
    "isHighRes newResult = Some True"
    "createdAt newResult = dateNow (exampleWorld {}) 0 0"
    "imageUrl newResult = Some (hd [''data:image/png;base64,iVBORw0KGgo=''])"
    by blast
  then have "results (handleUpscale (exampleWorld {}) withDraft draftResult)
       = [\<lparr>resultId = ''uuid--'', imageUrl = Some ''data:image/png;base64,iVBORw0KGgo='',
           resultPrompt = ''A gallery wall'', createdAt = 1700000000000,
           isHighRes = Some True\<rparr>,
          draftResult]"
    by (cases newResult) (simp add: st exampleWorld_def draftResult_def)
  with st(1) member gen show ?thesis by (simp add: draftResult_def)
qed

end
